theory Spec2Isabelle
  imports Complex_Main
begin

section \<open>Alert store (localStore.ts)\<close>

text \<open>
  JavaScript numbers are modelled as reals: prices, thresholds and percentages are finite
  values, and \<open>NaN\<close>, the infinities and binary rounding are outside the model (the one
  division the engine performs is given its IEEE result for a zero divisor explicitly).
  An optional field is an \<open>option\<close>; time stamps are milliseconds since the epoch.
\<close>

datatype direction = Above | Below

datatype AlertType = PriceCross | PercentageChange | VolumeSpike | TrailingStop

datatype alert_status = Active | Triggered | Cancelled

datatype OrderSide = BUY | SELL

datatype AccountType = SPOT | MARGIN

record LocalAlert =
  alert_id :: string
  symbol :: string
  target_price :: real
  direction :: direction
  alert_type :: AlertType
  trailing_percent :: "real option"
  trailing_high :: "real option"
  status :: alert_status
  created_at :: int
  triggered_at :: "int option"
  trade_enabled :: "bool option"
  trade_side :: "OrderSide option"
  trade_quantity :: "string option"
  trade_account_type :: "AccountType option"

text \<open>
  \<open>updateAlert(id, updates)\<close> maps over the stored list and merges the patch into every
  entry whose id matches; an id that is not stored changes nothing. The patch is a
  function on the entry.
\<close>

definition updateAlert ::
  "string \<Rightarrow> (LocalAlert \<Rightarrow> LocalAlert) \<Rightarrow> LocalAlert list \<Rightarrow> LocalAlert list" where
  "updateAlert i patch alerts = map (\<lambda>a. if alert_id a = i then patch a else a) alerts"

text \<open>\<open>createAlert\<close>: the caller supplies everything but id, status and creation time.\<close>

definition createAlert ::
  "string \<Rightarrow> int \<Rightarrow> LocalAlert \<Rightarrow> LocalAlert list \<Rightarrow> LocalAlert \<times> LocalAlert list" where
  "createAlert newId now alert alerts =
     (let newAlert = alert\<lparr>alert_id := newId, status := Active, created_at := now\<rparr>
      in (newAlert, alerts @ [newAlert]))"

section \<open>Alert evaluation engine (useAlertChecker.ts)\<close>

record PriceData =
  price :: real
  change :: real

text \<open>
  What the engine does to the outside world, in the order it does it: the status write
  of a trigger, the watermark write of a trailing stop (new watermark, new trigger
  price), the audio cue, the toast and the hand-over to the trade dispatcher. Writes
  to local storage are taken to succeed; the text of a toast is not modelled.
\<close>

datatype effect =
    StatusWrite string
  | WatermarkWrite string real real
  | Sound string
  | Toast string
  | TradeDispatch string

record engine =
  store :: "LocalAlert list"
  triggeredIds :: "string set"
  effects :: "effect list"

text \<open>JavaScript truthiness of an optional number: \<open>undefined\<close> and \<open>0\<close> are falsy.\<close>

definition truthy :: "real option \<Rightarrow> bool" where
  "truthy v = (case v of None \<Rightarrow> False | Some x \<Rightarrow> x \<noteq> 0)"

text \<open>\<open>a || b\<close> on an optional number.\<close>

definition or_else :: "real option \<Rightarrow> real \<Rightarrow> real" where
  "or_else v d = (case v of None \<Rightarrow> d | Some x \<Rightarrow> if x \<noteq> 0 then x else d)"

text \<open>
  \<open>triggerAlert\<close> up to its first \<open>await\<close>: the guard, the status write, the sound,
  the toast, and the start of the trade when the alert carries one. The result of the
  trade arrives later and only produces a further toast.
\<close>

definition triggerAlert :: "int \<Rightarrow> LocalAlert \<Rightarrow> real \<Rightarrow> engine \<Rightarrow> engine" where
  "triggerAlert now alert currentPrice s =
     (if alert_id alert \<in> triggeredIds s then s
      else s\<lparr>triggeredIds := insert (alert_id alert) (triggeredIds s),
             store := updateAlert (alert_id alert)
                        (\<lambda>a. a\<lparr>status := Triggered, triggered_at := Some now\<rparr>) (store s),
             effects := effects s @
                        [StatusWrite (alert_id alert), Sound (alert_id alert), Toast (alert_id alert)] @
                        (if trade_enabled alert = Some True then [TradeDispatch (alert_id alert)] else [])\<rparr>)"

text \<open>
  The percentage-change comparison. For a zero target the quotient is an IEEE infinity
  with the sign of the price (or \<open>NaN\<close> at price 0, which compares false), so the
  comparison against a finite threshold is decided by that sign.
\<close>

definition percentShouldTrigger :: "direction \<Rightarrow> real \<Rightarrow> real \<Rightarrow> real \<Rightarrow> bool" where
  "percentShouldTrigger dir currentPrice target pct =
     (if target = 0 then (if dir = Above then currentPrice > 0 else currentPrice < 0)
      else
        (let changePercent = ((currentPrice - target) / target) * 100
         in if dir = Above then changePercent \<ge> pct else changePercent \<le> - pct))"

text \<open>The body of the loop over the active alerts, for one alert of the snapshot.\<close>

definition evalAlert :: "(string \<times> PriceData) list \<Rightarrow> int \<Rightarrow> LocalAlert \<Rightarrow> engine \<Rightarrow> engine" where
  "evalAlert priceData now alert s =
     (case map_of priceData (symbol alert) of
        None \<Rightarrow> s
      | Some data \<Rightarrow>
          (let currentPrice = price data in
           if alert_id alert \<in> triggeredIds s then s
           else if alert_type alert = PriceCross then
             (if (if direction alert = Above then currentPrice \<ge> target_price alert
                  else currentPrice \<le> target_price alert)
              then triggerAlert now alert currentPrice s else s)
           else if alert_type alert = PercentageChange \<and> truthy (trailing_percent alert) then
             (if percentShouldTrigger (direction alert) currentPrice (target_price alert)
                   (the (trailing_percent alert))
              then triggerAlert now alert currentPrice s else s)
           else if alert_type alert = TrailingStop \<and> truthy (trailing_percent alert) then
             (let highWatermark = or_else (trailing_high alert) currentPrice;
                  pct = the (trailing_percent alert) in
              if direction alert = Above then
                (if currentPrice > highWatermark then
                   (let newTrigger = currentPrice * (1 - pct / 100) in
                    s\<lparr>store := updateAlert (alert_id alert)
                                  (\<lambda>a. a\<lparr>trailing_high := Some currentPrice, target_price := newTrigger\<rparr>)
                                  (store s),
                      effects := effects s @ [WatermarkWrite (alert_id alert) currentPrice newTrigger]\<rparr>)
                 else if currentPrice \<le> target_price alert then triggerAlert now alert currentPrice s
                 else s)
              else
                (let lowWatermark = highWatermark in
                 if currentPrice < lowWatermark then
                   (let newTrigger = currentPrice * (1 + pct / 100) in
                    s\<lparr>store := updateAlert (alert_id alert)
                                  (\<lambda>a. a\<lparr>trailing_high := Some currentPrice, target_price := newTrigger\<rparr>)
                                  (store s),
                      effects := effects s @ [WatermarkWrite (alert_id alert) currentPrice newTrigger]\<rparr>)
                 else if currentPrice \<ge> target_price alert then triggerAlert now alert currentPrice s
                 else s))
           else s))"

text \<open>
  One run of the effect on a price batch: nothing without prices or without active
  alerts, otherwise the loop over the snapshot of active alerts taken at the start.
\<close>

definition checkAlerts :: "(string \<times> PriceData) list \<Rightarrow> int \<Rightarrow> engine \<Rightarrow> engine" where
  "checkAlerts priceData now s =
     (if priceData = [] then s
      else
        (let activeAlerts = filter (\<lambda>a. status a = Active) (store s) in
         if activeAlerts = [] then s
         else foldl (\<lambda>st alert. evalAlert priceData now alert st) s activeAlerts))"

text \<open>The effects one pass adds.\<close>

definition passEffects :: "(string \<times> PriceData) list \<Rightarrow> int \<Rightarrow> engine \<Rightarrow> effect list" where
  "passEffects priceData now s = drop (length (effects s)) (effects (checkAlerts priceData now s))"

text \<open>The stored alert with a given id, if any.\<close>

definition findAlert :: "string \<Rightarrow> LocalAlert list \<Rightarrow> LocalAlert option" where
  "findAlert i alerts = find (\<lambda>a. alert_id a = i) alerts"

section \<open>The pass as one decision per alert\<close>

text \<open>
  Auxiliary functions for the proofs: the condition under which the loop body calls
  \<open>triggerAlert\<close> for an alert outside the guard set, the watermark it writes otherwise,
  and the patch and effects that follow. The lemmas below show that the loop body and
  the whole pass compute exactly these.
\<close>

definition fires :: "(string \<times> PriceData) list \<Rightarrow> LocalAlert \<Rightarrow> bool" where
  "fires priceData alert =
     (case map_of priceData (symbol alert) of
        None \<Rightarrow> False
      | Some data \<Rightarrow>
          (let currentPrice = price data in
           if alert_type alert = PriceCross then
             (if direction alert = Above then currentPrice \<ge> target_price alert
              else currentPrice \<le> target_price alert)
           else if alert_type alert = PercentageChange \<and> truthy (trailing_percent alert) then
             percentShouldTrigger (direction alert) currentPrice (target_price alert)
               (the (trailing_percent alert))
           else if alert_type alert = TrailingStop \<and> truthy (trailing_percent alert) then
             (if direction alert = Above
              then \<not> currentPrice > or_else (trailing_high alert) currentPrice \<and>
                   currentPrice \<le> target_price alert
              else \<not> currentPrice < or_else (trailing_high alert) currentPrice \<and>
                   currentPrice \<ge> target_price alert)
           else False))"

definition ratchets :: "(string \<times> PriceData) list \<Rightarrow> LocalAlert \<Rightarrow> (real \<times> real) option" where
  "ratchets priceData alert =
     (case map_of priceData (symbol alert) of
        None \<Rightarrow> None
      | Some data \<Rightarrow>
          (let currentPrice = price data in
           if alert_type alert = TrailingStop \<and> truthy (trailing_percent alert) then
             (if direction alert = Above then
                (if currentPrice > or_else (trailing_high alert) currentPrice
                 then Some (currentPrice, currentPrice * (1 - the (trailing_percent alert) / 100))
                 else None)
              else
                (if currentPrice < or_else (trailing_high alert) currentPrice
                 then Some (currentPrice, currentPrice * (1 + the (trailing_percent alert) / 100))
                 else None))
           else None))"

definition alertPatch :: "(string \<times> PriceData) list \<Rightarrow> int \<Rightarrow> LocalAlert \<Rightarrow> LocalAlert \<Rightarrow> LocalAlert" where
  "alertPatch priceData now alert =
     (if fires priceData alert then (\<lambda>a. a\<lparr>status := Triggered, triggered_at := Some now\<rparr>)
      else case ratchets priceData alert of
             None \<Rightarrow> (\<lambda>a. a)
           | Some (p, t) \<Rightarrow> (\<lambda>a. a\<lparr>trailing_high := Some p, target_price := t\<rparr>))"

definition alertEffects :: "(string \<times> PriceData) list \<Rightarrow> LocalAlert \<Rightarrow> effect list" where
  "alertEffects priceData alert =
     (if fires priceData alert
      then [StatusWrite (alert_id alert), Sound (alert_id alert), Toast (alert_id alert)] @
           (if trade_enabled alert = Some True then [TradeDispatch (alert_id alert)] else [])
      else case ratchets priceData alert of
             None \<Rightarrow> []
           | Some (p, t) \<Rightarrow> [WatermarkWrite (alert_id alert) p t])"

definition guardedPatch ::
  "string set \<Rightarrow> (string \<times> PriceData) list \<Rightarrow> int \<Rightarrow> LocalAlert \<Rightarrow> LocalAlert \<Rightarrow> LocalAlert" where
  "guardedPatch g priceData now alert =
     (if alert_id alert \<in> g then (\<lambda>a. a) else alertPatch priceData now alert)"

definition guardedEffects :: "string set \<Rightarrow> (string \<times> PriceData) list \<Rightarrow> LocalAlert \<Rightarrow> effect list" where
  "guardedEffects g priceData alert =
     (if alert_id alert \<in> g then [] else alertEffects priceData alert)"

text \<open>The alert an effect is about, and what one pass does about one alert.\<close>

fun effect_id :: "effect \<Rightarrow> string" where
  "effect_id (StatusWrite i) = i"
| "effect_id (WatermarkWrite i p t) = i"
| "effect_id (Sound i) = i"
| "effect_id (Toast i) = i"
| "effect_id (TradeDispatch i) = i"

definition alertPassEffects ::
  "(string \<times> PriceData) list \<Rightarrow> int \<Rightarrow> engine \<Rightarrow> LocalAlert \<Rightarrow> effect list" where
  "alertPassEffects priceData now s alert =
     filter (\<lambda>e. effect_id e = alert_id alert) (passEffects priceData now s)"

text \<open>
  Two facts about the states of a running engine. Ids are unique in the store
  (\<open>createAlert\<close> generates them). An id is put into the guard set only together with
  the status write, so a stored alert whose id is in the guard set is not active.
\<close>

definition uniqueIds :: "engine \<Rightarrow> bool" where
  "uniqueIds s = distinct (map alert_id (store s))"

definition guardConsistent :: "engine \<Rightarrow> bool" where
  "guardConsistent s =
     list_all (\<lambda>a. alert_id a \<in> triggeredIds s \<longrightarrow> status a \<noteq> Active) (store s)"

text \<open>A fresh engine session over a store: nothing triggered yet, nothing done yet.\<close>

definition initEngine :: "LocalAlert list \<Rightarrow> engine" where
  "initEngine alerts = \<lparr>store = alerts, triggeredIds = {}, effects = []\<rparr>"

text \<open>
  A session is a sequence of price batches. Between two passes the rest of the
  application may rewrite the store (creation, deletion, cancellation); that is the
  first component of a tick.
\<close>

type_synonym tick = "(LocalAlert list \<Rightarrow> LocalAlert list) \<times> (string \<times> PriceData) list \<times> int"

definition runTick :: "engine \<Rightarrow> tick \<Rightarrow> engine" where
  "runTick s t =
     (case t of (edit, priceData, now) \<Rightarrow> checkAlerts priceData now (s\<lparr>store := edit (store s)\<rparr>))"

definition runSession :: "tick list \<Rightarrow> engine \<Rightarrow> engine" where
  "runSession ticks s = foldl runTick s ticks"

text \<open>Concrete data for the worked examples.\<close>

definition blankAlert :: LocalAlert where
  "blankAlert =
     \<lparr>alert_id = ''a1'', symbol = ''BTCUSDT'', target_price = 0, direction = Above,
      alert_type = PriceCross, trailing_percent = None, trailing_high = None,
      status = Active, created_at = 0, triggered_at = None, trade_enabled = None,
      trade_side = None, trade_quantity = None, trade_account_type = None\<rparr>"

definition quote :: "real \<Rightarrow> (string \<times> PriceData) list" where
  "quote p = [(''BTCUSDT'', \<lparr>price = p, change = 0\<rparr>)]"

section \<open>Creating a trailing alert (TrailingAlertManager.tsx, addTrailingAlert)\<close>

text \<open>
  The form fields are taken after \<open>parseFloat\<close>: \<open>None\<close> stands for an empty field or a
  text that is not a number. A rejected form shows a toast and creates nothing.
\<close>

datatype trail_direction = Up | Down

definition addTrailingAlert ::
  "string \<Rightarrow> trail_direction \<Rightarrow> real option \<Rightarrow> bool \<Rightarrow> real option \<Rightarrow> real option \<Rightarrow>
   string \<Rightarrow> int \<Rightarrow> LocalAlert list \<Rightarrow> string + (LocalAlert \<times> LocalAlert list)" where
  "addTrailingAlert sym0 trailDirection trailPercentage autoTrigger manualTriggerPrice currentPrice
       newId now alerts =
     (if trailPercentage = None then Inl ''Invalid percentage''
      else if \<not> autoTrigger \<and> manualTriggerPrice = None then Inl ''Invalid trigger price''
      else if \<not> truthy currentPrice then Inl ''Price unavailable''
      else
        (let percentage = the trailPercentage;
             cur = the currentPrice;
             triggerPrice =
               (if autoTrigger
                then (if trailDirection = Up then cur * (1 - percentage / 100)
                      else cur * (1 + percentage / 100))
                else the manualTriggerPrice)
         in Inr (createAlert newId now
               \<lparr>alert_id = [], symbol = sym0, target_price = triggerPrice,
                direction = (if trailDirection = Up then Above else Below),
                alert_type = TrailingStop, trailing_percent = Some percentage,
                trailing_high = (if trailDirection = Up then Some cur else None),
                status = Active, created_at = now, triggered_at = None, trade_enabled = None,
                trade_side = None, trade_quantity = None, trade_account_type = None\<rparr>
               alerts)))"


text \<open>The effects of a trigger, as opposed to a watermark write.\<close>

fun triggerEffect :: "effect \<Rightarrow> bool" where
  "triggerEffect (WatermarkWrite i p t) = False"
| "triggerEffect e = True"

text \<open>Everything the engine has done about one alert id so far.\<close>

definition effectsAbout :: "string \<Rightarrow> engine \<Rightarrow> effect list" where
  "effectsAbout i s = filter (\<lambda>e. effect_id e = i) (effects s)"

text \<open>
  The invariant behind the once-only guarantee: no trigger effect occurs twice, and none
  has occurred for an id outside the guard set.
\<close>

definition onceOnly :: "engine \<Rightarrow> bool" where
  "onceOnly s \<longleftrightarrow>
     (\<forall>e. triggerEffect e \<longrightarrow>
        count_list (effects s) e \<le> (if effect_id e \<in> triggeredIds s then 1 else 0))"

text \<open>
  The downward trailing alert the form creates at price 100 with 5 percent and an
  automatic trigger price.
\<close>

definition downExample :: LocalAlert where
  "downExample =
     blankAlert\<lparr>alert_type := TrailingStop, direction := Below, trailing_percent := Some 5,
       trailing_high := None, target_price := 105\<rparr>"

section \<open>Request transport (binance.ts)\<close>

text \<open>
  What \<open>fetch\<close> or \<open>response.json()\<close> may throw: the abort of the timeout, a
  \<open>TypeError\<close> (network failure), any other \<open>Error\<close> with its message, or a value
  that is not an \<open>Error\<close>.
\<close>

datatype js_exn = AbortError | TypeError string | OtherError string | NonError

datatype error_code = RATE_LIMITED | HTTP_ERROR | ABORT_TIMEOUT | NETWORK_ERROR | RETRY_EXHAUSTED

text \<open>The messages are template strings; they are kept as terms.\<close>

datatype error_message =
    RateLimitFor int
  | RateLimitShortly
  | HttpFailure nat string
  | RequestTimeout
  | Message string
  | UnknownError
  | MaxRetries nat error_message

record ApiError =
  message :: error_message
  code :: error_code
  url :: string
  attempt :: nat
  err_status :: "nat option"
  retryAfterSec :: "int option"

record 'j Response =
  http_status :: nat
  statusText :: string
  retryAfterHeader :: "string option"
  json :: "js_exn + 'j"

record RetryConfig =
  maxAttempts :: nat
  baseDelay :: real
  timeout :: real
  jitterPercent :: real

definition DEFAULT_CONFIG :: RetryConfig where
  "DEFAULT_CONFIG = \<lparr>maxAttempts = 3, baseDelay = 300, timeout = 6000, jitterPercent = 30\<rparr>"

text \<open>\<open>Math.round\<close> rounds half up.\<close>

definition Math_round :: "real \<Rightarrow> int" where
  "Math_round x = \<lfloor>x + 1 / 2\<rfloor>"

text \<open>\<open>addJitter\<close>, with the value of \<open>Math.random()\<close> as third argument.\<close>

definition addJitter :: "real \<Rightarrow> real \<Rightarrow> real \<Rightarrow> int" where
  "addJitter delay jitterPct random =
     (let jitter = delay * (jitterPct / 100);
          randomFactor = random * 2 - 1
      in Math_round (delay + jitter * randomFactor))"

text \<open>
  The value handed to \<open>isRetryableError\<close> and to the \<open>catch\<close> block is either an
  \<open>ApiError\<close> built by the function itself or something thrown by the platform.
\<close>

datatype thrown = ThrownApi ApiError | ThrownJs js_exn

definition isRetryableError :: "thrown \<Rightarrow> nat option \<Rightarrow> bool" where
  "isRetryableError error st =
     (case error of
        ThrownJs AbortError \<Rightarrow> True
      | ThrownJs (TypeError m) \<Rightarrow> True
      | _ \<Rightarrow> (case st of
                None \<Rightarrow> False
              | Some c \<Rightarrow> c = 429 \<or> (c \<ge> 500 \<and> c < 600)))"

text \<open>
  \<open>parseInt(text, 10)\<close>: leading white space, an optional sign, then the longest run of
  decimal digits; \<open>None\<close> is \<open>NaN\<close>.
\<close>

definition isDigit :: "char \<Rightarrow> bool" where
  "isDigit c = (48 \<le> (of_char c :: nat) \<and> (of_char c :: nat) \<le> 57)"

definition digitsValue :: "string \<Rightarrow> int" where
  "digitsValue ds = foldl (\<lambda>n c. 10 * n + (int (of_char c) - 48)) 0 ds"

definition isSpace :: "char \<Rightarrow> bool" where
  "isSpace c = (c \<in> set [CHR '' '', CHR 0x09, CHR 0x0A, CHR 0x0B, CHR 0x0C, CHR 0x0D])"

definition parseInt10 :: "string \<Rightarrow> int option" where
  "parseInt10 text =
     (let t = dropWhile isSpace text;
          neg = (t \<noteq> [] \<and> hd t = CHR ''-'');
          body = (if t \<noteq> [] \<and> (hd t = CHR ''-'' \<or> hd t = CHR ''+'') then tl t else t);
          ds = takeWhile isDigit body
      in if ds = [] then None
         else Some (if neg then - digitsValue ds else digitsValue ds))"

text \<open>
  One iteration of the retry loop up to the back-off: the attempt returns the parsed
  body, throws out of the function, or records \<open>lastError\<close> and goes on.
\<close>

datatype 'j attempt_result = Return 'j | Throw ApiError | Retry ApiError

definition catchBlock :: "string \<Rightarrow> nat \<Rightarrow> thrown \<Rightarrow> 'j attempt_result" where
  "catchBlock input n error =
     (let lastError =
            (case error of
               ThrownApi e \<Rightarrow> e
             | ThrownJs AbortError \<Rightarrow>
                 \<lparr>message = RequestTimeout, code = ABORT_TIMEOUT, url = input, attempt = n,
                  err_status = None, retryAfterSec = None\<rparr>
             | ThrownJs (TypeError m) \<Rightarrow>
                 \<lparr>message = Message m, code = NETWORK_ERROR, url = input, attempt = n,
                  err_status = None, retryAfterSec = None\<rparr>
             | ThrownJs (OtherError m) \<Rightarrow>
                 \<lparr>message = Message m, code = NETWORK_ERROR, url = input, attempt = n,
                  err_status = None, retryAfterSec = None\<rparr>
             | ThrownJs NonError \<Rightarrow>
                 \<lparr>message = UnknownError, code = NETWORK_ERROR, url = input, attempt = n,
                  err_status = None, retryAfterSec = None\<rparr>)
      in if \<not> isRetryableError error None then Throw lastError else Retry lastError)"

definition response_ok :: "'j Response \<Rightarrow> bool" where
  "response_ok r = (200 \<le> http_status r \<and> http_status r \<le> 299)"

definition attemptOnce :: "string \<Rightarrow> nat \<Rightarrow> js_exn + 'j Response \<Rightarrow> 'j attempt_result" where
  "attemptOnce input n outcome =
     (case outcome of
        Inl ex \<Rightarrow> catchBlock input n (ThrownJs ex)
      | Inr response \<Rightarrow>
          if \<not> response_ok response then
            (if http_status response = 429 then
               (let retryAfter =
                      (case retryAfterHeader response of
                         None \<Rightarrow> None
                       | Some h \<Rightarrow> if h \<noteq> [] then parseInt10 h else None);
                    error =
                      \<lparr>message = (case retryAfter of
                                    None \<Rightarrow> RateLimitShortly
                                  | Some k \<Rightarrow> if k \<noteq> 0 then RateLimitFor k else RateLimitShortly),
                       code = RATE_LIMITED, url = input, attempt = n,
                       err_status = Some (http_status response), retryAfterSec = retryAfter\<rparr>
                in catchBlock input n (ThrownApi error))
             else
               (let error =
                      \<lparr>message = HttpFailure (http_status response) (statusText response),
                       code = HTTP_ERROR, url = input, attempt = n,
                       err_status = Some (http_status response), retryAfterSec = None\<rparr>
                in if \<not> isRetryableError (ThrownApi error) (Some (http_status response))
                   then catchBlock input n (ThrownApi error)
                   else Retry error))
          else
            (case json response of
               Inl ex \<Rightarrow> catchBlock input n (ThrownJs ex)
             | Inr v \<Rightarrow> Return v))"

text \<open>
  The trace of a call: every \<open>fetch\<close> with its attempt number, every back-off with the
  delay before and after jitter.
\<close>

datatype transport_event = Fetch nat | Sleep real int

definition backoffDelay :: "RetryConfig \<Rightarrow> nat \<Rightarrow> real" where
  "backoffDelay config n = baseDelay config * 2 ^ (n - 1)"

definition exhausted :: "RetryConfig \<Rightarrow> string \<Rightarrow> ApiError option \<Rightarrow> ApiError" where
  "exhausted config input lastError =
     \<lparr>message = MaxRetries (maxAttempts config)
                  (case lastError of
                     None \<Rightarrow> UnknownError
                   | Some e \<Rightarrow> if message e = Message [] then UnknownError else message e),
      code = RETRY_EXHAUSTED, url = input, attempt = maxAttempts config,
      err_status = None, retryAfterSec = None\<rparr>"

text \<open>
  The \<open>for\<close> loop from a given attempt number on. The network is a function from the
  attempt number to what that attempt meets, \<open>random\<close> gives the value \<open>Math.random()\<close>
  returns in that iteration.
\<close>

function fetchLoop ::
  "RetryConfig \<Rightarrow> string \<Rightarrow> (nat \<Rightarrow> js_exn + 'j Response) \<Rightarrow> (nat \<Rightarrow> real) \<Rightarrow>
   nat \<Rightarrow> ApiError option \<Rightarrow> transport_event list \<Rightarrow> transport_event list \<times> (ApiError + 'j)" where
  "fetchLoop config input net random n lastError trace =
     (if n \<le> maxAttempts config then
        (case attemptOnce input n (net n) of
           Return v \<Rightarrow> (trace @ [Fetch n], Inr v)
         | Throw e \<Rightarrow> (trace @ [Fetch n], Inl e)
         | Retry e \<Rightarrow>
             (if n < maxAttempts config then
                (let delay = backoffDelay config n;
                     jitteredDelay = addJitter delay (jitterPercent config) (random n)
                 in fetchLoop config input net random (n + 1) (Some e)
                      (trace @ [Fetch n, Sleep delay jitteredDelay]))
              else fetchLoop config input net random (n + 1) (Some e) (trace @ [Fetch n])))
      else (trace, Inl (exhausted config input lastError)))"
  by pat_completeness auto
termination
  by (relation "measure (\<lambda>(config, input, net, random, n, lastError, trace). maxAttempts config + 1 - n)")
     auto

declare fetchLoop.simps [simp del]

definition fetchJsonWithRetry ::
  "RetryConfig \<Rightarrow> string \<Rightarrow> (nat \<Rightarrow> js_exn + 'j Response) \<Rightarrow> (nat \<Rightarrow> real) \<Rightarrow>
   transport_event list \<times> (ApiError + 'j)" where
  "fetchJsonWithRetry config input net random = fetchLoop config input net random 1 None []"

text \<open>Concrete networks for the worked examples; \<open>Math.random()\<close> returning 1/2 means no jitter.\<close>

definition noJitter :: "nat \<Rightarrow> real" where
  "noJitter n = 1 / 2"

definition rateLimitedThenFine :: "nat \<Rightarrow> js_exn + nat Response" where
  "rateLimitedThenFine n =
     (if n = 1
      then Inr \<lparr>http_status = 429, statusText = ''Too Many Requests'',
                retryAfterHeader = Some ''7'', json = Inr 0\<rparr>
      else Inr \<lparr>http_status = 200, statusText = ''OK'', retryAfterHeader = None, json = Inr 5\<rparr>)"

definition alwaysFailing :: "nat \<Rightarrow> js_exn + nat Response" where
  "alwaysFailing n =
     (if n = 1
      then Inr \<lparr>http_status = 500, statusText = ''Internal Server Error'',
                retryAfterHeader = None, json = Inr 0\<rparr>
      else if n = 2 then Inl AbortError
      else Inr \<lparr>http_status = 503, statusText = ''Service Unavailable'',
                retryAfterHeader = None, json = Inr 0\<rparr>)"

definition notFound :: "nat \<Rightarrow> js_exn + nat Response" where
  "notFound n =
     Inr \<lparr>http_status = 404, statusText = ''Not Found'', retryAfterHeader = None, json = Inr 0\<rparr>"

text \<open>The back-off the loop inserts after attempt \<open>n\<close>.\<close>

definition backoffOf :: "RetryConfig \<Rightarrow> (nat \<Rightarrow> real) \<Rightarrow> nat \<Rightarrow> transport_event" where
  "backoffOf config random n =
     Sleep (backoffDelay config n)
       (addJitter (backoffDelay config n) (jitterPercent config) (random n))"

section \<open>DCA store (dcaStore.ts)\<close>

text \<open>
  A \<open>Date\<close> is its time value, an integer number of milliseconds since the epoch. The
  host time zone is a fixed offset \<open>tz\<close> (milliseconds east of UTC) without
  daylight-saving changes, so the local fields come from \<open>t + tz\<close>. Setters take
  fields of any size and carry over, as the JavaScript ones do. ISO time stamps are
  identified with the time value they denote.
\<close>

definition getMinutes :: "int \<Rightarrow> int \<Rightarrow> int" where
  "getMinutes tz t = ((t + tz) mod 3600000) div 60000"

definition getSeconds :: "int \<Rightarrow> int \<Rightarrow> int" where
  "getSeconds tz t = ((t + tz) mod 60000) div 1000"

definition getHours :: "int \<Rightarrow> int \<Rightarrow> int" where
  "getHours tz t = ((t + tz) mod 86400000) div 3600000"

text \<open>Day of the week, 0 for Sunday; the epoch was a Thursday.\<close>

definition getDay :: "int \<Rightarrow> int \<Rightarrow> int" where
  "getDay tz t = ((t + tz) div 86400000 + 4) mod 7"

text \<open>\<open>d.setMinutes(m, s, ms)\<close>.\<close>

definition setMinutes :: "int \<Rightarrow> int \<Rightarrow> int \<Rightarrow> int \<Rightarrow> int \<Rightarrow> int" where
  "setMinutes tz t m s ms = t - (t + tz) mod 3600000 + m * 60000 + s * 1000 + ms"

text \<open>\<open>d.setHours(h)\<close>, which keeps minutes, seconds and milliseconds.\<close>

definition setHours1 :: "int \<Rightarrow> int \<Rightarrow> int \<Rightarrow> int" where
  "setHours1 tz t h = t - (t + tz) mod 86400000 + h * 3600000 + (t + tz) mod 3600000"

text \<open>\<open>d.setHours(h, m, s, ms)\<close>.\<close>

definition setHours4 :: "int \<Rightarrow> int \<Rightarrow> int \<Rightarrow> int \<Rightarrow> int \<Rightarrow> int \<Rightarrow> int" where
  "setHours4 tz t h m s ms =
     t - (t + tz) mod 86400000 + h * 3600000 + m * 60000 + s * 1000 + ms"

text \<open>\<open>d.setDate(d.getDate() + n)\<close>: the same local time \<open>n\<close> days later.\<close>

definition plusDays :: "int \<Rightarrow> int \<Rightarrow> int" where
  "plusDays t n = t + n * 86400000"

text \<open>\<open>text.split(':')\<close>.\<close>

fun splitColon :: "string \<Rightarrow> string list" where
  "splitColon [] = [[]]"
| "splitColon (c # cs) =
     (if c = CHR '':'' then [] # splitColon cs
      else (case splitColon cs of
              [] \<Rightarrow> [[c]]
            | w # ws \<Rightarrow> (c # w) # ws))"

text \<open>
  \<open>Number(text)\<close> on the texts a schedule holds: white space around the text is
  dropped, the empty text is 0, an optional sign followed by decimal digits is that
  integer. Every other text is \<open>NaN\<close> here (\<open>None\<close>); fractions, exponents and
  other numeric literals are not modelled.
\<close>

definition Number_js :: "string \<Rightarrow> int option" where
  "Number_js text =
     (let t = rev (dropWhile isSpace (rev (dropWhile isSpace text)));
          neg = (t \<noteq> [] \<and> hd t = CHR ''-'');
          body = (if t \<noteq> [] \<and> (hd t = CHR ''-'' \<or> hd t = CHR ''+'') then tl t else t)
      in if t = [] then Some 0
         else if body \<noteq> [] \<and> list_all isDigit body
         then Some (if neg then - digitsValue body else digitsValue body)
         else None)"

text \<open>
  \<open>const [hours, minutes] = scheduledTime.split(':').map(Number)\<close>; a missing second
  part is \<open>undefined\<close>, which the date setters read as \<open>NaN\<close>.
\<close>

definition parseSchedule :: "string \<Rightarrow> int option \<times> int option" where
  "parseSchedule scheduledTime =
     (let parts = map Number_js (splitColon scheduledTime)
      in (case parts of
            [] \<Rightarrow> (None, None)
          | [h] \<Rightarrow> (h, None)
          | h # m # rest \<Rightarrow> (h, m)))"

datatype frequency = Hourly | Daily | Weekly

text \<open>
  \<open>computeNextExecution\<close>. A date whose time value is \<open>NaN\<close> makes \<open>toISOString\<close>
  throw a \<open>RangeError\<close>; that is the \<open>Inl\<close> result.
\<close>

definition computeNextExecution ::
  "int \<Rightarrow> frequency \<Rightarrow> string \<Rightarrow> int option \<Rightarrow> int \<Rightarrow> string + int" where
  "computeNextExecution tz freq scheduledTime dayOfWeek now =
     (if freq = Hourly then
        (if scheduledTime = ''end'' then
           (let next = setMinutes tz now 55 0 0
            in Inr (if next \<le> now then setHours1 tz next (getHours tz next + 1) else next))
         else
           (let next0 = setMinutes tz now 0 0 0;
                next = setHours1 tz next0 (getHours tz next0 + 1)
            in Inr (if scheduledTime = ''start'' \<and> getMinutes tz now = 0 \<and> getSeconds tz now < 30
                    then setHours1 tz next (getHours tz next - 1)
                    else next)))
      else
        (let hours = fst (parseSchedule scheduledTime);
             minutes = snd (parseSchedule scheduledTime)
         in if freq = Daily then
              (case (hours, minutes) of
                 (Some h, Some m) \<Rightarrow>
                   (let next = setHours4 tz now h m 0 0
                    in Inr (if next \<le> now then plusDays next 1 else next))
               | _ \<Rightarrow> Inl ''RangeError: Invalid time value'')
            else if freq = Weekly \<and> dayOfWeek \<noteq> None then
              (case (hours, minutes) of
                 (Some h, Some m) \<Rightarrow>
                   (let next = setHours4 tz now h m 0 0;
                        currentDay = getDay tz next;
                        daysUntil0 = the dayOfWeek - currentDay;
                        daysUntil1 = (if daysUntil0 < 0 then daysUntil0 + 7 else daysUntil0);
                        daysUntil = (if daysUntil1 = 0 \<and> next \<le> now then 7 else daysUntil1)
                    in Inr (plusDays next daysUntil))
               | _ \<Rightarrow> Inl ''RangeError: Invalid time value'')
            else Inr (now + 3600000)))"

record DCAStrategy =
  dca_id :: string
  dca_symbol :: string
  side :: OrderSide
  quoteAmount :: real
  totalBudget :: real
  totalSpent :: real
  executionCount :: nat
  accountType :: AccountType
  frequency :: frequency
  scheduledTime :: string
  dayOfWeek :: "int option"
  enabled :: bool
  nextExecuteAt :: int
  lastExecutedAt :: "int option"
  createdAt :: int

text \<open>
  The amounts are decimal texts in the source (\<open>'50'\<close>), read with \<open>parseFloat\<close> and
  written back with \<open>String\<close>; here they are the numbers themselves.
\<close>

definition updateDCAStrategy ::
  "string \<Rightarrow> (DCAStrategy \<Rightarrow> DCAStrategy) \<Rightarrow> DCAStrategy list \<Rightarrow> DCAStrategy list" where
  "updateDCAStrategy i updates strategies = map (\<lambda>s. if dca_id s = i then updates s else s) strategies"

text \<open>
  Auxiliary, for the proofs: the next time after \<open>now\<close> that lies \<open>X\<close> milliseconds
  after a multiple of the period \<open>P\<close> in local time; the daily rule and the hourly
  \<open>end\<close> rule are instances.
\<close>

definition nextSlot :: "int \<Rightarrow> int \<Rightarrow> int \<Rightarrow> int \<Rightarrow> int" where
  "nextSlot P X tz now =
     (let b = now - (now + tz) mod P + X in if b \<le> now then b + P else b)"

text \<open>The input of the worked examples: ten seconds past an hour, in UTC.\<close>

definition tenPastTheHour :: int where
  "tenPastTheHour = 3610000"



section \<open>Trade dispatcher (keyStore.ts, orderStore.ts, executeAlertTrade.ts, executeDCATrade.ts)\<close>

record StoredKeys =
  apiKey :: string
  apiSecret :: string

text \<open>
  What local storage holds under the keys entry: reading may throw, the entry may be
  missing or empty, its text may fail to parse as an object, or it parses to an object
  whose two fields are given here (the empty text for a missing or empty field).
\<close>

datatype keys_entry = ReadThrows | NoEntry | Unparsable | Entry string string

text \<open>\<open>getStoredKeys\<close> catches everything and answers \<open>null\<close>.\<close>

definition getStoredKeys :: "keys_entry \<Rightarrow> StoredKeys option" where
  "getStoredKeys e =
     (case e of
        Entry k s \<Rightarrow> if k \<noteq> [] \<and> s \<noteq> [] then Some \<lparr>apiKey = k, apiSecret = s\<rparr> else None
      | _ \<Rightarrow> None)"

datatype SideEffectType = NO_SIDE_EFFECT | MARGIN_BUY | AUTO_REPAY

record OrderResponse =
  orderId :: int
  order_symbol :: string
  order_side :: OrderSide
  order_price :: string
  origQty :: string
  order_status :: string

record StoredOrder =
  stored_id :: string
  stored_orderId :: int
  stored_symbol :: string
  stored_side :: OrderSide
  stored_price :: string
  quantity :: string
  stored_status :: string
  stored_accountType :: AccountType
  alertId :: "string option"
  stored_createdAt :: int

record LimitOrderParams =
  limit_symbol :: string
  limit_side :: OrderSide
  limit_quantity :: string
  limit_price :: real
  limit_accountType :: AccountType
  limit_sideEffectType :: "SideEffectType option"

record MarketOrderParams =
  market_symbol :: string
  market_side :: OrderSide
  quoteOrderQty :: "real option"
  market_quantity :: "real option"
  market_accountType :: AccountType
  market_sideEffectType :: "SideEffectType option"

text \<open>
  The surroundings of a dispatch. A call that fails throws an \<open>Error\<close>; \<open>Inl\<close> carries
  its message. The trading client's \<open>placeMarketOrder\<close> is not part of the sources at
  hand and is, like \<open>placeLimitOrder\<close> and \<open>syncTime\<close>, a parameter here.
\<close>

record world =
  keysEntry :: keys_entry
  syncTime :: "string + unit"
  placeLimitOrder :: "LimitOrderParams \<Rightarrow> string + OrderResponse"
  placeMarketOrder :: "MarketOrderParams \<Rightarrow> string + OrderResponse"
  storageWritable :: bool
  orderHistory :: "StoredOrder list"
  freshId :: string
  clock :: int

definition MAX_ORDERS :: nat where
  "MAX_ORDERS = 100"

text \<open>
  \<open>addOrderToHistory\<close>: the new entry goes to the front, the list is cut to
  \<open>MAX_ORDERS\<close>, and the write to local storage may throw.
\<close>

definition addOrderToHistory ::
  "world \<Rightarrow> OrderResponse \<Rightarrow> AccountType \<Rightarrow> string option \<Rightarrow> string + world" where
  "addOrderToHistory w response acct ref =
     (let order =
            \<lparr>stored_id = freshId w, stored_orderId = orderId response,
             stored_symbol = order_symbol response, stored_side = order_side response,
             stored_price = order_price response, quantity = origQty response,
             stored_status = order_status response, stored_accountType = acct,
             alertId = ref, stored_createdAt = clock w\<rparr>;
          history = take MAX_ORDERS (order # orderHistory w)
      in if storageWritable w then Inr (w\<lparr>orderHistory := history\<rparr>)
         else Inl ''QuotaExceededError'')"

record TradeResult =
  success :: bool
  order :: "OrderResponse option"
  error :: "string option"

text \<open>
  Both dispatchers answer with a value or throw; \<open>Inl\<close> is an exception that leaves the
  function, \<open>Inr\<close> is what it returns together with the world it leaves behind.
  \<open>executeAlertTrade\<close> returns \<open>null\<close> (\<open>None\<close>) for an alert without a trade.
  Outside the \<open>try\<close> block the functions read the keys and build the signer and the
  client, which are closures whose construction calls nothing; everything that can
  fail is inside the block.
\<close>

definition executeAlertTrade :: "world \<Rightarrow> LocalAlert \<Rightarrow> string + (TradeResult option \<times> world)" where
  "executeAlertTrade w alert =
     (if trade_enabled alert \<noteq> Some True then Inr (None, w)
      else
        (case getStoredKeys (keysEntry w) of
           None \<Rightarrow>
             Inr (Some \<lparr>success = False, order = None, error = Some ''No API keys configured''\<rparr>, w)
         | Some keys \<Rightarrow>
             (case
                (case syncTime w of
                   Inl err \<Rightarrow> Inl err
                 | Inr u \<Rightarrow>
                     (let acct = (case trade_account_type alert of None \<Rightarrow> SPOT | Some a \<Rightarrow> a) in
                      case placeLimitOrder w
                             \<lparr>limit_symbol = symbol alert,
                              limit_side = (case trade_side alert of None \<Rightarrow> BUY | Some sd \<Rightarrow> sd),
                              limit_quantity = (case trade_quantity alert of None \<Rightarrow> ''0'' | Some q \<Rightarrow> q),
                              limit_price = target_price alert,
                              limit_accountType = acct,
                              limit_sideEffectType = (if acct = MARGIN then Some MARGIN_BUY else None)\<rparr> of
                        Inl err \<Rightarrow> Inl err
                      | Inr ord \<Rightarrow>
                          (case addOrderToHistory w ord acct (Some (alert_id alert)) of
                             Inl err \<Rightarrow> Inl err
                           | Inr w' \<Rightarrow> Inr (ord, w'))))
              of
                Inr (ord, w') \<Rightarrow> Inr (Some \<lparr>success = True, order = Some ord, error = None\<rparr>, w')
              | Inl err \<Rightarrow> Inr (Some \<lparr>success = False, order = None, error = Some err\<rparr>, w))))"

definition executeDCATrade :: "world \<Rightarrow> DCAStrategy \<Rightarrow> string + (TradeResult \<times> world)" where
  "executeDCATrade w strategy =
     (case getStoredKeys (keysEntry w) of
        None \<Rightarrow> Inr (\<lparr>success = False, order = None, error = Some ''No API keys configured''\<rparr>, w)
      | Some keys \<Rightarrow>
          (case
             (case syncTime w of
                Inl err \<Rightarrow> Inl err
              | Inr u \<Rightarrow>
                  (let isMargin = (accountType strategy = MARGIN) in
                   case placeMarketOrder w
                          \<lparr>market_symbol = dca_symbol strategy,
                           market_side = side strategy,
                           quoteOrderQty = (if side strategy = BUY then Some (quoteAmount strategy) else None),
                           market_quantity = (if side strategy = SELL then Some (quoteAmount strategy) else None),
                           market_accountType = accountType strategy,
                           market_sideEffectType =
                             (if isMargin
                              then (if side strategy = BUY then Some MARGIN_BUY else Some AUTO_REPAY)
                              else None)\<rparr> of
                     Inl err \<Rightarrow> Inl err
                   | Inr ord \<Rightarrow>
                       (case addOrderToHistory w ord (accountType strategy)
                               (Some (''dca-'' @ dca_id strategy)) of
                          Inl err \<Rightarrow> Inl err
                        | Inr w' \<Rightarrow> Inr (ord, w'))))
           of
             Inr (ord, w') \<Rightarrow> Inr (\<lparr>success = True, order = Some ord, error = None\<rparr>, w')
           | Inl err \<Rightarrow> Inr (\<lparr>success = False, order = None, error = Some err\<rparr>, w)))"

text \<open>Concrete surroundings for the worked examples: no keys stored; keys stored and a failing time sync.\<close>

definition sampleOrder :: OrderResponse where
  "sampleOrder =
     \<lparr>orderId = 1, order_symbol = ''BTCUSDT'', order_side = BUY, order_price = ''0'',
      origQty = ''1'', order_status = ''FILLED''\<rparr>"

definition limitOk :: "LimitOrderParams \<Rightarrow> string + OrderResponse" where
  "limitOk p = Inr sampleOrder"

definition marketOk :: "MarketOrderParams \<Rightarrow> string + OrderResponse" where
  "marketOk p = Inr sampleOrder"

definition noKeysWorld :: world where
  "noKeysWorld =
     \<lparr>keysEntry = NoEntry, syncTime = Inr (), placeLimitOrder = limitOk,
      placeMarketOrder = marketOk, storageWritable = True, orderHistory = [],
      freshId = ''o1'', clock = 0\<rparr>"

definition offlineWorld :: world where
  "offlineWorld = noKeysWorld\<lparr>keysEntry := Entry ''key'' ''secret'', syncTime := Inl ''Failed to fetch''\<rparr>"

definition onlineWorld :: world where
  "onlineWorld = noKeysWorld\<lparr>keysEntry := Entry ''key'' ''secret''\<rparr>"

section \<open>DCA scheduler (useDCAScheduler.ts)\<close>

text \<open>
  The scheduler's log: each call of \<open>executeDCATrade\<close> with the strategy id, the due
  time it was made for and whether the trade succeeded.
\<close>

datatype dca_event = TradeAttempt string int bool


text \<open>
  The key \<open>`${strategy.id}-${strategy.nextExecuteAt}`\<close> is kept as the pair it is built
  from; generated ids contain no hyphen, so the text determines the pair.
\<close>

record scheduler =
  strategies :: "DCAStrategy list"
  executedKeys :: "(string \<times> int) set"
  executing :: bool
  attempts :: "dca_event list"

text \<open>
  \<open>executeStrategy\<close>. The trade meets the world \<open>w\<close> and is over at time \<open>finished\<close>,
  which is the \<open>now\<close> of the bookkeeping. The second component of the result is an
  exception leaving the function; the updates are computed from the strategy as it was
  passed in and merged into the stored entry.
\<close>

definition executeStrategy ::
  "int \<Rightarrow> world \<Rightarrow> int \<Rightarrow> DCAStrategy \<Rightarrow> scheduler \<Rightarrow> scheduler \<times> string option" where
  "executeStrategy tz w finished strategy s =
     (let key = (dca_id strategy, nextExecuteAt strategy) in
      if key \<in> executedKeys s then (s, None)
      else
        (let s1 = s\<lparr>executedKeys := insert key (executedKeys s)\<rparr> in
         case executeDCATrade w strategy of
           Inl err \<Rightarrow> (s1, Some err)
         | Inr (result, w') \<Rightarrow>
             (let s2 = s1\<lparr>attempts := attempts s1 @
                          [TradeAttempt (dca_id strategy) (nextExecuteAt strategy) (success result)]\<rparr>;
                  now = finished;
                  newTotalSpent = totalSpent strategy + quoteAmount strategy;
                  budgetExhausted = (newTotalSpent \<ge> totalBudget strategy)
              in case computeNextExecution tz (frequency strategy) (scheduledTime strategy)
                        (dayOfWeek strategy) now of
                   Inl err \<Rightarrow> (s2, Some err)
                 | Inr next \<Rightarrow>
                     (s2\<lparr>strategies :=
                           updateDCAStrategy (dca_id strategy)
                             (\<lambda>x. x\<lparr>totalSpent := newTotalSpent,
                                     executionCount := executionCount strategy + 1,
                                     lastExecutedAt := Some now,
                                     nextExecuteAt := next,
                                     enabled := (if budgetExhausted then False else enabled x)\<rparr>)
                             (strategies s2)\<rparr>,
                      None))))"

text \<open>
  The loop of \<open>check\<close> over the strategies read at its start. \<open>env\<close> gives, for each
  strategy that is executed, the world its trade meets and the time the trade is over.
\<close>

fun checkLoop ::
  "int \<Rightarrow> (DCAStrategy \<Rightarrow> world \<times> int) \<Rightarrow> int \<Rightarrow> DCAStrategy list \<Rightarrow> scheduler \<Rightarrow>
   scheduler \<times> string option" where
  "checkLoop tz env now [] s = (s, None)"
| "checkLoop tz env now (strategy # rest) s =
     (if \<not> enabled strategy then checkLoop tz env now rest s
      else if now \<ge> nextExecuteAt strategy then
        (case executeStrategy tz (fst (env strategy)) (snd (env strategy)) strategy s of
           (s', Some err) \<Rightarrow> (s', Some err)
         | (s', None) \<Rightarrow> checkLoop tz env now rest s')
      else checkLoop tz env now rest s)"

definition check ::
  "int \<Rightarrow> (DCAStrategy \<Rightarrow> world \<times> int) \<Rightarrow> int \<Rightarrow> scheduler \<Rightarrow> scheduler \<times> string option" where
  "check tz env now s =
     (if executing s then (s, None)
      else
        (case checkLoop tz env now (strategies s) (s\<lparr>executing := True\<rparr>) of
           (s', err) \<Rightarrow> (s'\<lparr>executing := False\<rparr>, err)))"

text \<open>
  A scheduler session: the checks in order, each with what the rest of the application
  did to the stored strategies since the previous one.
\<close>

type_synonym dca_tick = "(DCAStrategy list \<Rightarrow> DCAStrategy list) \<times> (DCAStrategy \<Rightarrow> world \<times> int) \<times> int"

definition runCheck :: "int \<Rightarrow> scheduler \<Rightarrow> dca_tick \<Rightarrow> scheduler" where
  "runCheck tz s t =
     (case t of (edit, env, now) \<Rightarrow> fst (check tz env now (s\<lparr>strategies := edit (strategies s)\<rparr>)))"

definition runChecks :: "int \<Rightarrow> dca_tick list \<Rightarrow> scheduler \<Rightarrow> scheduler" where
  "runChecks tz ticks s = foldl (runCheck tz) s ticks"

definition initScheduler :: "DCAStrategy list \<Rightarrow> scheduler" where
  "initScheduler sts = \<lparr>strategies = sts, executedKeys = {}, executing = False, attempts = []\<rparr>"


text \<open>
  The strategy of the specification's example: budget 100, 50 per execution, daily at
  09:30 UTC, first due on the first day after the epoch; every trade succeeds and is
  over five seconds after the check.
\<close>

definition budgetExample :: DCAStrategy where
  "budgetExample =
     \<lparr>dca_id = ''s1'', dca_symbol = ''BTCUSDT'', side = BUY, quoteAmount = 50, totalBudget = 100,
      totalSpent = 0, executionCount = 0, accountType = SPOT, frequency = Daily,
      scheduledTime = ''09:30'', dayOfWeek = None, enabled = True, nextExecuteAt = 34200000,
      lastExecutedAt = None, createdAt = 0\<rparr>"

definition unchanged :: "DCAStrategy list \<Rightarrow> DCAStrategy list" where
  "unchanged sts = sts"

definition tradeAt :: "int \<Rightarrow> DCAStrategy \<Rightarrow> world \<times> int" where
  "tradeAt t strategy = (onlineWorld, t)"



text \<open>
  An hourly strategy scheduled at \<open>start\<close>, due at 01:00 UTC, and two checks: five
  seconds past 01:00, with the trade over ten seconds past, and five seconds past 02:00.
\<close>

definition hourlyExample :: DCAStrategy where
  "hourlyExample =
     budgetExample\<lparr>frequency := Hourly, scheduledTime := ''start'', nextExecuteAt := 3600000\<rparr>"

definition hourlyChecks :: "dca_tick list" where
  "hourlyChecks =
     [(unchanged, tradeAt tenPastTheHour, 3605000),
      (unchanged, tradeAt 7210000, 7205000)]"

section \<open>Properties of the evaluation pass\<close>

lemma fires_not_ratchets: "fires pd a \<Longrightarrow> ratchets pd a = None"
  by (auto simp: fires_def ratchets_def Let_def split: option.splits)

lemma evalAlert_guarded: "alert_id a \<in> triggeredIds s \<Longrightarrow> evalAlert pd now a s = s"
  by (simp add: evalAlert_def Let_def split: option.splits)

lemma updateAlert_id: "updateAlert i (\<lambda>a. a) st = st"
  by (simp add: updateAlert_def map_idI)

lemma evalAlert_fires:
  assumes "alert_id a \<notin> triggeredIds s" "map_of pd (symbol a) = Some d" "fires pd a"
  shows "evalAlert pd now a s = triggerAlert now a (price d) s"
  using assms
  by (cases "alert_type a"; cases "direction a"; cases "truthy (trailing_percent a)")
     (simp_all add: evalAlert_def fires_def Let_def)

lemma evalAlert_ratchets:
  assumes "alert_id a \<notin> triggeredIds s" "ratchets pd a = Some (p, t)"
  shows "evalAlert pd now a s =
           s\<lparr>store := updateAlert (alert_id a)
                       (\<lambda>a. a\<lparr>trailing_high := Some p, target_price := t\<rparr>) (store s),
             effects := effects s @ [WatermarkWrite (alert_id a) p t]\<rparr>"
proof -
  from assms(2) obtain d where d: "map_of pd (symbol a) = Some d"
    by (cases "map_of pd (symbol a)") (simp_all add: ratchets_def)
  show ?thesis using assms d
    by (cases "alert_type a"; cases "direction a"; cases "truthy (trailing_percent a)")
       (auto simp add: evalAlert_def ratchets_def Let_def split: if_splits)
qed

lemma evalAlert_idle:
  assumes "\<not> fires pd a" "ratchets pd a = None"
  shows "evalAlert pd now a s = s"
proof (cases "map_of pd (symbol a)")
  case None
  then show ?thesis by (simp add: evalAlert_def)
next
  case (Some d)
  then show ?thesis using assms
    by (cases "alert_type a"; cases "direction a"; cases "truthy (trailing_percent a)")
       (simp_all add: evalAlert_def fires_def ratchets_def Let_def split: if_splits)
qed

lemma evalAlert_unguarded:
  assumes g: "alert_id a \<notin> triggeredIds s"
  shows "evalAlert pd now a s =
     s\<lparr>triggeredIds := (if fires pd a then insert (alert_id a) (triggeredIds s) else triggeredIds s),
       store := updateAlert (alert_id a) (alertPatch pd now a) (store s),
       effects := effects s @ alertEffects pd a\<rparr>"
proof (cases "fires pd a")
  case True
  then obtain d where d: "map_of pd (symbol a) = Some d"
    by (cases "map_of pd (symbol a)") (simp_all add: fires_def)
  from True have "evalAlert pd now a s = triggerAlert now a (price d) s"
    using g d by (simp add: evalAlert_fires)
  then show ?thesis using True g
    by (simp add: triggerAlert_def alertPatch_def alertEffects_def)
next
  case False
  show ?thesis
  proof (cases "ratchets pd a")
    case None
    then show ?thesis using False
      by (simp add: evalAlert_idle alertPatch_def alertEffects_def updateAlert_id)
  next
    case (Some pt)
    obtain p t where pt: "pt = (p, t)" by (cases pt)
    show ?thesis using False Some pt g
      by (simp add: evalAlert_ratchets alertPatch_def alertEffects_def)
  qed
qed

lemma evalAlert_step:
  "evalAlert pd now a s =
     s\<lparr>triggeredIds := (if fires pd a then insert (alert_id a) (triggeredIds s) else triggeredIds s),
       store := updateAlert (alert_id a) (guardedPatch (triggeredIds s) pd now a) (store s),
       effects := effects s @ guardedEffects (triggeredIds s) pd a\<rparr>"
proof (cases "alert_id a \<in> triggeredIds s")
  case True
  then show ?thesis
    by (simp add: evalAlert_guarded guardedPatch_def guardedEffects_def updateAlert_id insert_absorb)
next
  case False
  then show ?thesis
    by (simp add: evalAlert_unguarded guardedPatch_def guardedEffects_def)
qed

lemma loop_char:
  assumes "distinct (map alert_id as)"
  shows "foldl (\<lambda>st alert. evalAlert pd now alert st) s as =
     s\<lparr>triggeredIds := triggeredIds s \<union> alert_id ` {a \<in> set as. fires pd a},
       store := foldl (\<lambda>st a. updateAlert (alert_id a) (guardedPatch (triggeredIds s) pd now a) st)
                  (store s) as,
       effects := effects s @ concat (map (guardedEffects (triggeredIds s) pd) as)\<rparr>"
  using assms
proof (induction as rule: rev_induct)
  case Nil
  then show ?case by simp
next
  case (snoc a as)
  let ?s' = "foldl (\<lambda>st alert. evalAlert pd now alert st) s as"
  from snoc.prems have d: "distinct (map alert_id as)" and n: "alert_id a \<notin> alert_id ` set as"
    by simp_all
  have s': "?s' = s\<lparr>triggeredIds := triggeredIds s \<union> alert_id ` {a \<in> set as. fires pd a},
       store := foldl (\<lambda>st a. updateAlert (alert_id a) (guardedPatch (triggeredIds s) pd now a) st)
                  (store s) as,
       effects := effects s @ concat (map (guardedEffects (triggeredIds s) pd) as)\<rparr>"
    using snoc.IH [OF d] .
  have mem: "alert_id a \<in> triggeredIds ?s' \<longleftrightarrow> alert_id a \<in> triggeredIds s"
    using n by (subst s') auto
  have gp: "guardedPatch (triggeredIds ?s') pd now a = guardedPatch (triggeredIds s) pd now a"
    using mem by (simp add: guardedPatch_def)
  have ge: "guardedEffects (triggeredIds ?s') pd a = guardedEffects (triggeredIds s) pd a"
    using mem by (simp add: guardedEffects_def)
  have ids: "(if fires pd a then insert (alert_id a) (triggeredIds ?s') else triggeredIds ?s') =
             triggeredIds s \<union> alert_id ` {x \<in> set (as @ [a]). fires pd x}"
    by (subst s')+ auto
  have "foldl (\<lambda>st alert. evalAlert pd now alert st) s (as @ [a]) = evalAlert pd now a ?s'"
    by simp
  also have "\<dots> = ?s'\<lparr>triggeredIds := triggeredIds s \<union> alert_id ` {x \<in> set (as @ [a]). fires pd x},
       store := updateAlert (alert_id a) (guardedPatch (triggeredIds s) pd now a) (store ?s'),
       effects := effects ?s' @ guardedEffects (triggeredIds s) pd a\<rparr>"
    by (subst evalAlert_step) (simp only: gp ge ids)
  also have "\<dots> = s\<lparr>triggeredIds := triggeredIds s \<union> alert_id ` {x \<in> set (as @ [a]). fires pd x},
       store := foldl (\<lambda>st a. updateAlert (alert_id a) (guardedPatch (triggeredIds s) pd now a) st)
                  (store s) (as @ [a]),
       effects := effects s @ concat (map (guardedEffects (triggeredIds s) pd) (as @ [a]))\<rparr>"
    by (subst s')+ simp
  finally show ?case .
qed

lemma updates_as_map:
  assumes "distinct (map alert_id st)" "set as \<subseteq> set st" "distinct as"
    and "\<And>a x. alert_id (f a x) = alert_id x"
  shows "foldl (\<lambda>st a. updateAlert (alert_id a) (f a) st) st as =
         map (\<lambda>x. if x \<in> set as then f x x else x) st"
  using assms(2,3)
proof (induction as rule: rev_induct)
  case Nil
  then show ?case by simp
next
  case (snoc a as)
  then have ih: "foldl (\<lambda>st a. updateAlert (alert_id a) (f a) st) st as =
         map (\<lambda>x. if x \<in> set as then f x x else x) st"
    and a: "a \<in> set st" "a \<notin> set as" by simp_all
  have same: "\<And>x. x \<in> set st \<Longrightarrow> alert_id x = alert_id a \<Longrightarrow> x = a"
    using assms(1) a(1) by (meson distinct_map inj_onD)
  have "foldl (\<lambda>st a. updateAlert (alert_id a) (f a) st) st (as @ [a]) =
        updateAlert (alert_id a) (f a) (map (\<lambda>x. if x \<in> set as then f x x else x) st)"
    by (simp add: ih)
  also have "\<dots> = map (\<lambda>x. if x \<in> set (as @ [a]) then f x x else x) st"
    unfolding updateAlert_def map_map
  proof (rule map_cong [OF refl])
    fix x assume x: "x \<in> set st"
    show "((\<lambda>a'. if alert_id a' = alert_id a then f a a' else a') \<circ>
           (\<lambda>x. if x \<in> set as then f x x else x)) x =
          (if x \<in> set (as @ [a]) then f x x else x)"
      using same [OF x] a(2) assms(4) by auto
  qed
  finally show ?case .
qed

lemma guardedPatch_id [simp]: "alert_id (guardedPatch g pd now a x) = alert_id x"
  by (simp add: guardedPatch_def alertPatch_def split: option.splits prod.splits)

lemma alertEffects_ids: "e \<in> set (alertEffects pd a) \<Longrightarrow> effect_id e = alert_id a"
  by (auto simp: alertEffects_def split: if_splits option.splits prod.splits)

lemma guardedEffects_ids: "e \<in> set (guardedEffects g pd a) \<Longrightarrow> effect_id e = alert_id a"
  by (auto simp: guardedEffects_def alertEffects_ids split: if_splits)

lemma no_prices_fires [simp]: "\<not> fires [] a"
  by (simp add: fires_def)

lemma no_prices_ratchets [simp]: "ratchets [] a = None"
  by (simp add: ratchets_def)

lemma pass_char:
  assumes "distinct (map alert_id (store s))"
  shows "checkAlerts pd now s =
     s\<lparr>triggeredIds := triggeredIds s \<union> alert_id ` {a \<in> set (store s). status a = Active \<and> fires pd a},
       store := map (\<lambda>x. if status x = Active then guardedPatch (triggeredIds s) pd now x x else x) (store s),
       effects := effects s @
                  concat (map (guardedEffects (triggeredIds s) pd) (filter (\<lambda>a. status a = Active) (store s)))\<rparr>"
proof -
  let ?as = "filter (\<lambda>a. status a = Active) (store s)"
  have d: "distinct (map alert_id ?as)" using assms by (rule distinct_map_filter)
  have d': "distinct ?as" using d by (simp add: distinct_map)
  have loop: "foldl (\<lambda>st alert. evalAlert pd now alert st) s ?as =
     s\<lparr>triggeredIds := triggeredIds s \<union> alert_id ` {a \<in> set ?as. fires pd a},
       store := foldl (\<lambda>st a. updateAlert (alert_id a) (guardedPatch (triggeredIds s) pd now a) st)
                  (store s) ?as,
       effects := effects s @ concat (map (guardedEffects (triggeredIds s) pd) ?as)\<rparr>"
    using d by (rule loop_char)
  have st: "foldl (\<lambda>st a. updateAlert (alert_id a) (guardedPatch (triggeredIds s) pd now a) st) (store s) ?as =
        map (\<lambda>x. if x \<in> set ?as then guardedPatch (triggeredIds s) pd now x x else x) (store s)"
    by (rule updates_as_map [OF assms _ d']) simp_all
  have st': "map (\<lambda>x. if x \<in> set ?as then guardedPatch (triggeredIds s) pd now x x else x) (store s) =
        map (\<lambda>x. if status x = Active then guardedPatch (triggeredIds s) pd now x x else x) (store s)"
    by (rule map_cong) simp_all
  have ids: "{a \<in> set ?as. fires pd a} = {a \<in> set (store s). status a = Active \<and> fires pd a}"
    by auto
  have run: "checkAlerts pd now s = foldl (\<lambda>st alert. evalAlert pd now alert st) s ?as"
  proof (cases "pd = [] \<or> ?as = []")
    case False
    then show ?thesis by (simp add: checkAlerts_def)
  next
    case True
    have "foldl (\<lambda>st alert. evalAlert pd now alert st) s ?as = s"
    proof (cases "?as = []")
      case True
      then show ?thesis by simp
    next
      case False
      with True have pd: "pd = []" by simp
      have "\<And>xs st. foldl (\<lambda>st alert. evalAlert [] now alert st) st xs = st"
      proof -
        fix xs :: "LocalAlert list" and st
        show "foldl (\<lambda>st alert. evalAlert [] now alert st) st xs = st"
          by (induction xs) (simp_all add: evalAlert_def)
      qed
      then show ?thesis by (simp add: pd)
    qed
    moreover have "checkAlerts pd now s = s" using True by (auto simp: checkAlerts_def)
    ultimately show ?thesis by simp
  qed
  show ?thesis by (simp only: run loop st st' ids)
qed

lemma pass_effects_char:
  assumes "distinct (map alert_id (store s))"
  shows "passEffects pd now s =
         concat (map (guardedEffects (triggeredIds s) pd) (filter (\<lambda>a. status a = Active) (store s)))"
  unfolding passEffects_def by (subst pass_char [OF assms]) simp

lemma filter_concat_one:
  assumes "distinct (map alert_id as)" "a \<in> set as"
    and "\<And>b e. e \<in> set (h b) \<Longrightarrow> effect_id e = alert_id b"
  shows "filter (\<lambda>e. effect_id e = alert_id a) (concat (map h as)) = h a"
  using assms(1,2)
proof (induction as)
  case Nil
  then show ?case by simp
next
  case (Cons b as)
  show ?case
  proof (cases "b = a")
    case True
    then have "alert_id a \<notin> alert_id ` set as" using Cons.prems by simp
    then have "\<And>c. c \<in> set as \<Longrightarrow> alert_id c \<noteq> alert_id a" by (metis imageI)
    then have "\<And>c. c \<in> set as \<Longrightarrow> filter (\<lambda>e. effect_id e = alert_id a) (h c) = []"
      using assms(3) by (auto simp: filter_empty_conv)
    then have "filter (\<lambda>e. effect_id e = alert_id a) (concat (map h as)) = []"
      by (induction as) simp_all
    moreover have "filter (\<lambda>e. effect_id e = alert_id a) (h a) = h a"
      using assms(3) by (simp add: filter_id_conv)
    ultimately show ?thesis using True by simp
  next
    case False
    then have a: "a \<in> set as" and ne: "alert_id b \<noteq> alert_id a" using Cons.prems by auto
    have "filter (\<lambda>e. effect_id e = alert_id a) (h b) = []"
      using assms(3) ne by (auto simp: filter_empty_conv)
    then show ?thesis using Cons.IH Cons.prems a by simp
  qed
qed

lemma guard_not_active:
  "guardConsistent s \<Longrightarrow> a \<in> set (store s) \<Longrightarrow> status a = Active \<Longrightarrow> alert_id a \<notin> triggeredIds s"
  by (auto simp: guardConsistent_def list_all_iff)

lemma pass_alert_effects:
  assumes "uniqueIds s" "guardConsistent s" "a \<in> set (store s)" "status a = Active"
  shows "alertPassEffects pd now s a = alertEffects pd a"
proof -
  have d: "distinct (map alert_id (store s))" using assms(1) by (simp add: uniqueIds_def)
  have g: "alert_id a \<notin> triggeredIds s" using assms(2-4) by (rule guard_not_active)
  have "alertPassEffects pd now s a = guardedEffects (triggeredIds s) pd a"
    unfolding alertPassEffects_def pass_effects_char [OF d]
    by (rule filter_concat_one [OF distinct_map_filter [OF d]])
       (use assms(3,4) in \<open>simp_all add: guardedEffects_ids\<close>)
  then show ?thesis using g by (simp add: guardedEffects_def)
qed

lemma status_write_filter:
  "StatusWrite (alert_id a) \<in> set (passEffects pd now s) \<longleftrightarrow>
   StatusWrite (alert_id a) \<in> set (alertPassEffects pd now s a)"
  by (simp add: alertPassEffects_def)

lemma findAlert_map:
  "(\<And>x. alert_id (h x) = alert_id x) \<Longrightarrow> findAlert i (map h st) = map_option h (findAlert i st)"
  by (induction st) (simp_all add: findAlert_def)

lemma findAlert_mem:
  "distinct (map alert_id st) \<Longrightarrow> a \<in> set st \<Longrightarrow> findAlert (alert_id a) st = Some a"
  by (induction st) (auto simp: findAlert_def)

lemma pass_alert_store:
  assumes "uniqueIds s" "guardConsistent s" "a \<in> set (store s)" "status a = Active"
  shows "findAlert (alert_id a) (store (checkAlerts pd now s)) = Some (alertPatch pd now a a)"
proof -
  have d: "distinct (map alert_id (store s))" using assms(1) by (simp add: uniqueIds_def)
  have g: "alert_id a \<notin> triggeredIds s" using assms(2-4) by (rule guard_not_active)
  have "findAlert (alert_id a) (store (checkAlerts pd now s)) =
        map_option (\<lambda>x. if status x = Active then guardedPatch (triggeredIds s) pd now x x else x)
          (findAlert (alert_id a) (store s))"
    by (subst pass_char [OF d]) (simp add: findAlert_map)
  then show ?thesis using g assms(4) by (simp add: findAlert_mem [OF d assms(3)] guardedPatch_def)
qed

subsection \<open>The two invariants hold throughout a session\<close>

lemma loop_store_ids:
  "map alert_id (store (foldl (\<lambda>st alert. evalAlert pd now alert st) s as)) = map alert_id (store s)"
proof (induction as arbitrary: s)
  case Nil
  then show ?case by simp
next
  case (Cons a as)
  have "map alert_id (store (evalAlert pd now a s)) = map alert_id (store s)"
    by (subst evalAlert_step) (simp add: updateAlert_def comp_def)
  then show ?case using Cons.IH [of "evalAlert pd now a s"] by simp
qed

lemma pass_store_ids: "map alert_id (store (checkAlerts pd now s)) = map alert_id (store s)"
  by (simp add: checkAlerts_def Let_def loop_store_ids)

lemma uniqueIds_pass: "uniqueIds (checkAlerts pd now s) = uniqueIds s"
  by (simp add: uniqueIds_def pass_store_ids)

lemma uniqueIds_init: "uniqueIds (initEngine st) = distinct (map alert_id st)"
  by (simp add: uniqueIds_def initEngine_def)

lemma guardConsistent_init: "guardConsistent (initEngine st)"
  by (simp add: guardConsistent_def initEngine_def list_all_iff)

lemma guardConsistent_pass:
  assumes u: "uniqueIds s" and g: "guardConsistent s"
  shows "guardConsistent (checkAlerts pd now s)"
proof -
  have d: "distinct (map alert_id (store s))" using u by (simp add: uniqueIds_def)
  let ?h = "\<lambda>x. if status x = Active then guardedPatch (triggeredIds s) pd now x x else x"
  have "status (?h x) \<noteq> Active"
    if x: "x \<in> set (store s)"
      and m: "alert_id x \<in> triggeredIds s \<union> alert_id ` {a \<in> set (store s). status a = Active \<and> fires pd a}"
    for x
  proof (cases "status x = Active")
    case False
    then show ?thesis by simp
  next
    case True
    have ng: "alert_id x \<notin> triggeredIds s" using g x True by (rule guard_not_active)
    with m obtain b where b: "b \<in> set (store s)" "fires pd b" "alert_id b = alert_id x"
      by auto
    have "b = x" using d b(1,3) x by (meson distinct_map inj_onD)
    then have "fires pd x" using b(2) by simp
    then show ?thesis using True ng by (simp add: guardedPatch_def alertPatch_def)
  qed
  note key = this
  have st: "store (checkAlerts pd now s) = map ?h (store s)"
    by (subst pass_char [OF d]) simp
  have tg: "triggeredIds (checkAlerts pd now s) =
        triggeredIds s \<union> alert_id ` {a \<in> set (store s). status a = Active \<and> fires pd a}"
    by (subst pass_char [OF d]) simp
  show ?thesis
    unfolding guardConsistent_def list_all_iff st tg
  proof (intro ballI impI)
    fix y
    assume y: "y \<in> set (map ?h (store s))"
      and m: "alert_id y \<in> triggeredIds s \<union> alert_id ` {a \<in> set (store s). status a = Active \<and> fires pd a}"
    from y obtain x where x: "x \<in> set (store s)" "y = ?h x" by auto
    have "alert_id y = alert_id x" using x(2) by simp
    with m key [OF x(1)] x(2) show "status y \<noteq> Active" by simp
  qed
qed

subsection \<open>The guard set\<close>

lemma step_guard_mono: "triggeredIds s \<subseteq> triggeredIds (evalAlert pd now a s)"
  by (subst evalAlert_step) auto

lemma step_about_guarded:
  assumes "i \<in> triggeredIds s"
  shows "effectsAbout i (evalAlert pd now a s) = effectsAbout i s"
proof (cases "alert_id a = i")
  case True
  then show ?thesis using assms by (simp add: evalAlert_guarded)
next
  case False
  then have "filter (\<lambda>e. effect_id e = i) (guardedEffects (triggeredIds s) pd a) = []"
    by (auto simp: filter_empty_conv dest: guardedEffects_ids)
  then show ?thesis by (subst evalAlert_step) (simp add: effectsAbout_def)
qed

lemma loop_about_guarded:
  "i \<in> triggeredIds s \<Longrightarrow>
   effectsAbout i (foldl (\<lambda>st alert. evalAlert pd now alert st) s as) = effectsAbout i s \<and>
   i \<in> triggeredIds (foldl (\<lambda>st alert. evalAlert pd now alert st) s as)"
proof (induction as arbitrary: s)
  case Nil
  then show ?case by simp
next
  case (Cons a as)
  have "i \<in> triggeredIds (evalAlert pd now a s)" using Cons.prems step_guard_mono by blast
  from Cons.IH [OF this] show ?case using Cons.prems by (simp add: step_about_guarded)
qed

lemma pass_about_guarded:
  "i \<in> triggeredIds s \<Longrightarrow>
   effectsAbout i (checkAlerts pd now s) = effectsAbout i s \<and> i \<in> triggeredIds (checkAlerts pd now s)"
  by (simp add: checkAlerts_def Let_def loop_about_guarded)

lemma tick_about_guarded:
  "i \<in> triggeredIds s \<Longrightarrow>
   effectsAbout i (runTick s t) = effectsAbout i s \<and> i \<in> triggeredIds (runTick s t)"
proof -
  assume i: "i \<in> triggeredIds s"
  obtain edit pd now where t: "t = (edit, pd, now)" by (cases t)
  have "i \<in> triggeredIds (s\<lparr>store := edit (store s)\<rparr>)" using i by simp
  from pass_about_guarded [OF this] show ?thesis by (simp add: runTick_def t effectsAbout_def)
qed

lemma session_about_guarded:
  "i \<in> triggeredIds s \<Longrightarrow>
   effectsAbout i (runSession ticks s) = effectsAbout i s \<and> i \<in> triggeredIds (runSession ticks s)"
  unfolding runSession_def
proof (induction ticks arbitrary: s)
  case Nil
  then show ?case by simp
next
  case (Cons t ticks)
  from tick_about_guarded [OF Cons.prems, of t]
  have 1: "effectsAbout i (runTick s t) = effectsAbout i s" and 2: "i \<in> triggeredIds (runTick s t)"
    by simp_all
  from Cons.IH [OF 2] show ?case by (simp add: 1)
qed

subsection \<open>At most one trigger per id\<close>


lemma count_alertEffects:
  "triggerEffect e \<Longrightarrow> count_list (alertEffects pd a) e \<le> (if effect_id e = alert_id a \<and> fires pd a then 1 else 0)"
  by (cases e) (auto simp: alertEffects_def split: option.splits prod.splits)

lemma onceOnly_step:
  assumes "onceOnly s"
  shows "onceOnly (evalAlert pd now a s)"
proof (cases "alert_id a \<in> triggeredIds s")
  case True
  then show ?thesis using assms by (simp add: evalAlert_guarded)
next
  case False
  show ?thesis
    unfolding onceOnly_def
  proof (intro allI impI)
    fix e assume e: "triggerEffect e"
    have old: "count_list (effects s) e \<le> (if effect_id e \<in> triggeredIds s then 1 else 0)"
      using assms e by (simp add: onceOnly_def)
    have new: "count_list (alertEffects pd a) e \<le> (if effect_id e = alert_id a \<and> fires pd a then 1 else 0)"
      using e by (rule count_alertEffects)
    show "count_list (effects (evalAlert pd now a s)) e \<le>
          (if effect_id e \<in> triggeredIds (evalAlert pd now a s) then 1 else 0)"
      using old new False
      by (subst (1 2) evalAlert_unguarded [OF False]) (auto split: if_splits)
  qed
qed

lemma onceOnly_loop:
  "onceOnly s \<Longrightarrow> onceOnly (foldl (\<lambda>st alert. evalAlert pd now alert st) s as)"
  by (induction as arbitrary: s) (simp_all add: onceOnly_step)

lemma onceOnly_pass: "onceOnly s \<Longrightarrow> onceOnly (checkAlerts pd now s)"
  by (simp add: checkAlerts_def Let_def onceOnly_loop)

lemma onceOnly_tick: "onceOnly s \<Longrightarrow> onceOnly (runTick s t)"
proof -
  assume s: "onceOnly s"
  obtain edit pd now where t: "t = (edit, pd, now)" by (cases t)
  have "onceOnly (s\<lparr>store := edit (store s)\<rparr>)" using s by (simp add: onceOnly_def)
  then show ?thesis by (simp add: runTick_def t onceOnly_pass)
qed

lemma onceOnly_session: "onceOnly s \<Longrightarrow> onceOnly (runSession ticks s)"
  unfolding runSession_def by (induction ticks arbitrary: s) (simp_all add: onceOnly_tick)

lemma onceOnly_init: "onceOnly (initEngine st)"
  by (simp add: onceOnly_def initEngine_def)

lemma session_count:
  "triggerEffect e \<Longrightarrow> count_list (effects (runSession ticks (initEngine st))) e \<le> 1"
  using onceOnly_session [OF onceOnly_init, of ticks st]
  by (auto simp: onceOnly_def split: if_splits dest!: spec [of _ e])

section \<open>Claims about the alert evaluation engine\<close>

text \<open>
  C6. For an active price-cross alert whose symbol has a price in the batch, the pass
  triggers the alert exactly when the current price is at or beyond the target on the
  alert's side; only the current price enters the decision. The stored alert becomes
  triggered in that case and is left as it is otherwise.
\<close>

theorem price_cross_current_value:
  assumes "uniqueIds s" and "guardConsistent s"
    and "alert \<in> set (store s)" and "status alert = Active"
    and "alert_type alert = PriceCross"
    and "map_of priceData (symbol alert) = Some data"
  shows "(StatusWrite (alert_id alert) \<in> set (passEffects priceData now s) \<longleftrightarrow>
            (direction alert = Above \<and> price data \<ge> target_price alert) \<or>
            (direction alert = Below \<and> price data \<le> target_price alert)) \<and>
         findAlert (alert_id alert) (store (checkAlerts priceData now s)) =
           Some (if (direction alert = Above \<and> price data \<ge> target_price alert) \<or>
                    (direction alert = Below \<and> price data \<le> target_price alert)
                 then alert\<lparr>status := Triggered, triggered_at := Some now\<rparr> else alert)"
proof -
  have f: "fires priceData alert \<longleftrightarrow>
            (direction alert = Above \<and> price data \<ge> target_price alert) \<or>
            (direction alert = Below \<and> price data \<le> target_price alert)"
    using assms(5,6) by (cases "direction alert") (simp_all add: fires_def)
  have r: "ratchets priceData alert = None"
    using assms(5,6) by (simp add: ratchets_def)
  have e: "alertPassEffects priceData now s alert = alertEffects priceData alert"
    using assms(1-4) by (rule pass_alert_effects)
  have st: "findAlert (alert_id alert) (store (checkAlerts priceData now s)) =
            Some (alertPatch priceData now alert alert)"
    using assms(1-4) by (rule pass_alert_store)
  have "StatusWrite (alert_id alert) \<in> set (passEffects priceData now s) \<longleftrightarrow> fires priceData alert"
    unfolding status_write_filter e using r by (simp add: alertEffects_def)
  moreover have "alertPatch priceData now alert alert =
      (if fires priceData alert then alert\<lparr>status := Triggered, triggered_at := Some now\<rparr> else alert)"
    using r by (simp add: alertPatch_def)
  ultimately show ?thesis unfolding st f by simp
qed

lemma example_engine_ok:
  "uniqueIds (initEngine [a])" "guardConsistent (initEngine [a])"
  by (simp_all add: uniqueIds_def guardConsistent_def initEngine_def)

theorem price_cross_current_value_witness:
  "StatusWrite ''a1'' \<notin> set (passEffects (quote 49500) 2 (initEngine [blankAlert\<lparr>target_price := 50000\<rparr>])) \<and>
   StatusWrite ''a1'' \<in> set (passEffects (quote 50000) 3 (initEngine [blankAlert\<lparr>target_price := 50000\<rparr>]))"
  using price_cross_current_value [of "initEngine [blankAlert\<lparr>target_price := 50000\<rparr>]"
      "blankAlert\<lparr>target_price := 50000\<rparr>" "quote 49500" "\<lparr>price = 49500, change = 0\<rparr>" 2]
    price_cross_current_value [of "initEngine [blankAlert\<lparr>target_price := 50000\<rparr>]"
      "blankAlert\<lparr>target_price := 50000\<rparr>" "quote 50000" "\<lparr>price = 50000, change = 0\<rparr>" 3]
  by (simp add: example_engine_ok) (simp add: initEngine_def blankAlert_def quote_def)

text \<open>The end-to-end scenario of the specification, run on the model.\<close>

lemma end_to_end_scenario:
  "effects (runSession [(\<lambda>st. st, quote 49000, 1), (\<lambda>st. st, quote 49500, 2), (\<lambda>st. st, quote 50000, 3)]
      (initEngine [blankAlert\<lparr>target_price := 50000\<rparr>])) =
     [StatusWrite ''a1'', Sound ''a1'', Toast ''a1'']"
  "map status (store (runSession [(\<lambda>st. st, quote 49000, 1), (\<lambda>st. st, quote 49500, 2), (\<lambda>st. st, quote 50000, 3)]
      (initEngine [blankAlert\<lparr>target_price := 50000\<rparr>]))) = [Triggered]"
  by (simp_all add: runSession_def runTick_def checkAlerts_def evalAlert_def triggerAlert_def
      updateAlert_def initEngine_def blankAlert_def quote_def)







text \<open>
  C2. A call of \<open>triggerAlert\<close> for an id outside the guard set puts the id into the set
  and makes the stored status triggered. From then on the loop body and
  \<open>triggerAlert\<close> leave the engine as it is for that alert, and no later pass of the
  session adds any effect about that id, whatever the prices and whatever is done to
  the store in between. In a session that starts with an empty guard set, every status
  write, sound, toast and trade dispatch occurs at most once per id.
\<close>

theorem trigger_at_most_once:
  "(alert_id alert \<notin> triggeredIds s \<longrightarrow>
      alert_id alert \<in> triggeredIds (triggerAlert now alert p s) \<and>
      (\<forall>x \<in> set (store (triggerAlert now alert p s)).
          alert_id x = alert_id alert \<longrightarrow> status x = Triggered)) \<and>
   (alert_id alert \<in> triggeredIds s \<longrightarrow>
      evalAlert priceData now alert s = s \<and> triggerAlert now alert p s = s \<and>
      effectsAbout (alert_id alert) (runSession ticks s) = effectsAbout (alert_id alert) s) \<and>
   count_list (effects (runSession ticks (initEngine alerts))) (StatusWrite i) \<le> 1 \<and>
   count_list (effects (runSession ticks (initEngine alerts))) (Sound i) \<le> 1 \<and>
   count_list (effects (runSession ticks (initEngine alerts))) (Toast i) \<le> 1 \<and>
   count_list (effects (runSession ticks (initEngine alerts))) (TradeDispatch i) \<le> 1"
proof -
  have a: "alert_id alert \<in> triggeredIds (triggerAlert now alert p s) \<and>
      (\<forall>x \<in> set (store (triggerAlert now alert p s)).
          alert_id x = alert_id alert \<longrightarrow> status x = Triggered)"
    if "alert_id alert \<notin> triggeredIds s"
    using that by (auto simp: triggerAlert_def updateAlert_def)
  have b: "evalAlert priceData now alert s = s \<and> triggerAlert now alert p s = s \<and>
      effectsAbout (alert_id alert) (runSession ticks s) = effectsAbout (alert_id alert) s"
    if "alert_id alert \<in> triggeredIds s"
    using that session_about_guarded [OF that, of ticks]
    by (simp add: evalAlert_guarded triggerAlert_def)
  have c: "count_list (effects (runSession ticks (initEngine alerts))) e \<le> 1"
    if "triggerEffect e" for e
    using that by (rule session_count)
  show ?thesis using a b c [of "StatusWrite i"] c [of "Sound i"] c [of "Toast i"]
      c [of "TradeDispatch i"]
    by simp
qed

theorem trigger_at_most_once_witness:
  "count_list (effects (runSession [(\<lambda>st. st, quote 100, 1), (\<lambda>st. st, quote 100, 2)]
      (initEngine [blankAlert\<lparr>target_price := 100\<rparr>]))) (StatusWrite ''a1'') \<le> 1 \<and>
   effects (runSession [(\<lambda>st. st, quote 100, 1), (\<lambda>st. st, quote 100, 2)]
      (initEngine [blankAlert\<lparr>target_price := 100\<rparr>])) =
     [StatusWrite ''a1'', Sound ''a1'', Toast ''a1''] \<and>
   ''a1'' \<in> triggeredIds (triggerAlert 1 (blankAlert\<lparr>target_price := 100\<rparr>) 100
      (initEngine [blankAlert\<lparr>target_price := 100\<rparr>]))"
proof -
  have "effects (runSession [(\<lambda>st. st, quote 100, 1), (\<lambda>st. st, quote 100, 2)]
      (initEngine [blankAlert\<lparr>target_price := 100\<rparr>])) =
     [StatusWrite ''a1'', Sound ''a1'', Toast ''a1'']"
    by (simp add: runSession_def runTick_def checkAlerts_def evalAlert_def triggerAlert_def
        updateAlert_def initEngine_def blankAlert_def quote_def)
  moreover have "''a1'' \<notin> triggeredIds (initEngine [blankAlert\<lparr>target_price := 100\<rparr>])"
    by (simp add: initEngine_def)
  ultimately show ?thesis
    using trigger_at_most_once [of "blankAlert\<lparr>target_price := 100\<rparr>"
        "initEngine [blankAlert\<lparr>target_price := 100\<rparr>]" 1 100 "quote 100"
        "[(\<lambda>st. st, quote 100, 1), (\<lambda>st. st, quote 100, 2)]"
        "[blankAlert\<lparr>target_price := 100\<rparr>]" "''a1''"]
    by (simp add: blankAlert_def)
qed

text \<open>
  C10. For an active trailing stop whose \<open>trailing_high\<close> is unset or 0, a pass never
  writes a watermark: the stored \<open>trailing_high\<close> and \<open>target_price\<close> stay as they are
  (so the same holds at the next pass), and the alert triggers exactly when it has a
  non-zero \<open>trailing_percent\<close>, its symbol has a price, and that price is at or below
  (direction above), respectively at or above (direction below), the stored
  \<open>target_price\<close>. The trailing-alert form stores \<open>trailing_high\<close> only for the upward
  direction, so every downward alert it creates is in this state.
\<close>

theorem unset_watermark_is_fixed_threshold:
  assumes "uniqueIds s" and "guardConsistent s"
    and "alert \<in> set (store s)" and "status alert = Active"
    and "alert_type alert = TrailingStop"
    and "trailing_high alert = None \<or> trailing_high alert = Some 0"
  shows "(\<forall>p t. WatermarkWrite (alert_id alert) p t \<notin> set (passEffects priceData now s)) \<and>
         (\<exists>a'. findAlert (alert_id alert) (store (checkAlerts priceData now s)) = Some a' \<and>
               trailing_high a' = trailing_high alert \<and> target_price a' = target_price alert \<and>
               alert_type a' = TrailingStop) \<and>
         (StatusWrite (alert_id alert) \<in> set (passEffects priceData now s) \<longleftrightarrow>
            truthy (trailing_percent alert) \<and>
            (\<exists>data. map_of priceData (symbol alert) = Some data \<and>
               ((direction alert = Above \<and> price data \<le> target_price alert) \<or>
                (direction alert = Below \<and> price data \<ge> target_price alert)))) \<and>
         (addTrailingAlert sym0 Down pct auto manual cur newId t0 alerts = Inr (created, alerts') \<longrightarrow>
            trailing_high created = None \<and> direction created = Below \<and>
            alert_type created = TrailingStop \<and> status created = Active \<and>
            alerts' = alerts @ [created]) \<and>
         (addTrailingAlert sym0 Up pct auto manual cur newId t0 alerts = Inr (created, alerts') \<longrightarrow>
            trailing_high created = cur \<and> cur \<noteq> None \<and> cur \<noteq> Some 0 \<and>
            direction created = Above)"
proof -
  have e: "alertPassEffects priceData now s alert = alertEffects priceData alert"
    using assms(1-4) by (rule pass_alert_effects)
  have st: "findAlert (alert_id alert) (store (checkAlerts priceData now s)) =
            Some (alertPatch priceData now alert alert)"
    using assms(1-4) by (rule pass_alert_store)
  have sw: "StatusWrite (alert_id alert) \<in> set (passEffects priceData now s) \<longleftrightarrow>
            StatusWrite (alert_id alert) \<in> set (alertEffects priceData alert)"
    unfolding status_write_filter e ..
  have ww: "WatermarkWrite (alert_id alert) p t \<in> set (passEffects priceData now s) \<longleftrightarrow>
            WatermarkWrite (alert_id alert) p t \<in> set (alertEffects priceData alert)" for p t
    unfolding e [symmetric] by (simp add: alertPassEffects_def)
  have w: "or_else (trailing_high alert) q = q" for q
    using assms(6) by (auto simp: or_else_def)
  have r: "ratchets priceData alert = None"
    by (simp add: ratchets_def w Let_def split: option.splits)
  have f: "fires priceData alert \<longleftrightarrow>
            truthy (trailing_percent alert) \<and>
            (\<exists>data. map_of priceData (symbol alert) = Some data \<and>
               ((direction alert = Above \<and> price data \<le> target_price alert) \<or>
                (direction alert = Below \<and> price data \<ge> target_price alert)))"
    using assms(5) by (cases "direction alert") (auto simp: fires_def w Let_def split: option.splits)
  have 1: "\<forall>p t. WatermarkWrite (alert_id alert) p t \<notin> set (passEffects priceData now s)"
    unfolding ww using r by (simp add: alertEffects_def)
  have 2: "\<exists>a'. findAlert (alert_id alert) (store (checkAlerts priceData now s)) = Some a' \<and>
               trailing_high a' = trailing_high alert \<and> target_price a' = target_price alert \<and>
               alert_type a' = TrailingStop"
    unfolding st using r assms(5) by (simp add: alertPatch_def)
  have 3: "StatusWrite (alert_id alert) \<in> set (passEffects priceData now s) \<longleftrightarrow>
            truthy (trailing_percent alert) \<and>
            (\<exists>data. map_of priceData (symbol alert) = Some data \<and>
               ((direction alert = Above \<and> price data \<le> target_price alert) \<or>
                (direction alert = Below \<and> price data \<ge> target_price alert)))"
    unfolding sw f [symmetric] using r by (simp add: alertEffects_def)
  have 4: "addTrailingAlert sym0 Down pct auto manual cur newId t0 alerts = Inr (created, alerts') \<longrightarrow>
            trailing_high created = None \<and> direction created = Below \<and>
            alert_type created = TrailingStop \<and> status created = Active \<and>
            alerts' = alerts @ [created]"
    by (auto simp: addTrailingAlert_def createAlert_def Let_def split: if_splits)
  have 5: "addTrailingAlert sym0 Up pct auto manual cur newId t0 alerts = Inr (created, alerts') \<longrightarrow>
            trailing_high created = cur \<and> cur \<noteq> None \<and> cur \<noteq> Some 0 \<and>
            direction created = Above"
    by (auto simp: addTrailingAlert_def createAlert_def Let_def truthy_def split: if_splits option.splits)
  show ?thesis using 1 2 3 4 5 by blast
qed

theorem unset_watermark_is_fixed_threshold_witness:
  "addTrailingAlert ''BTCUSDT'' Down (Some 5) True None (Some 100) ''a1'' 0 [] =
     Inr (downExample, [downExample]) \<and>
   WatermarkWrite ''a1'' 90 (189 / 2) \<notin> set (passEffects (quote 90) 1 (initEngine [downExample])) \<and>
   StatusWrite ''a1'' \<notin> set (passEffects (quote 90) 1 (initEngine [downExample])) \<and>
   StatusWrite ''a1'' \<in> set (passEffects (quote 105) 2 (initEngine [downExample]))"
proof -
  have c: "addTrailingAlert ''BTCUSDT'' Down (Some 5) True None (Some 100) ''a1'' 0 [] =
     Inr (downExample, [downExample])"
    by (simp add: addTrailingAlert_def createAlert_def truthy_def downExample_def blankAlert_def Let_def)
  have h: "downExample \<in> set (store (initEngine [downExample]))" "status downExample = Active"
    "alert_type downExample = TrailingStop"
    "trailing_high downExample = None \<or> trailing_high downExample = Some 0"
    by (simp_all add: initEngine_def downExample_def blankAlert_def)
  have i: "alert_id downExample = ''a1''" "symbol downExample = ''BTCUSDT''"
    "direction downExample = Below" "target_price downExample = 105"
    "truthy (trailing_percent downExample)"
    by (simp_all add: downExample_def blankAlert_def truthy_def)
  from unset_watermark_is_fixed_threshold [OF example_engine_ok h, of "quote 90" 1]
  have "WatermarkWrite ''a1'' 90 (189 / 2) \<notin> set (passEffects (quote 90) 1 (initEngine [downExample]))"
    and "StatusWrite ''a1'' \<notin> set (passEffects (quote 90) 1 (initEngine [downExample]))"
    by (simp_all add: i quote_def)
  moreover from unset_watermark_is_fixed_threshold [OF example_engine_ok h, of "quote 105" 2]
  have "StatusWrite ''a1'' \<in> set (passEffects (quote 105) 2 (initEngine [downExample]))"
    by (simp add: i quote_def)
  ultimately show ?thesis using c by simp
qed

section \<open>Properties of the retry loop\<close>

lemma fetchLoop_past_end:
  "\<not> n \<le> maxAttempts config \<Longrightarrow>
   fetchLoop config input net random n lastError trace = (trace, Inl (exhausted config input lastError))"
  by (subst fetchLoop.simps) simp

lemma fetchLoop_return:
  "n \<le> maxAttempts config \<Longrightarrow> attemptOnce input n (net n) = Return v \<Longrightarrow>
   fetchLoop config input net random n lastError trace = (trace @ [Fetch n], Inr v)"
  by (subst fetchLoop.simps) simp

lemma fetchLoop_throw:
  "n \<le> maxAttempts config \<Longrightarrow> attemptOnce input n (net n) = Throw e \<Longrightarrow>
   fetchLoop config input net random n lastError trace = (trace @ [Fetch n], Inl e)"
  by (subst fetchLoop.simps) simp

lemma fetchLoop_retry:
  "n < maxAttempts config \<Longrightarrow> attemptOnce input n (net n) = Retry e \<Longrightarrow>
   fetchLoop config input net random n lastError trace =
     fetchLoop config input net random (n + 1) (Some e) (trace @ [Fetch n, backoffOf config random n])"
  by (subst fetchLoop.simps) (simp add: backoffOf_def Let_def)

lemma fetchLoop_last_retry:
  "n = maxAttempts config \<Longrightarrow> attemptOnce input n (net n) = Retry e \<Longrightarrow>
   fetchLoop config input net random n lastError trace =
     (trace @ [Fetch n], Inl (exhausted config input (Some e)))"
  by (subst fetchLoop.simps) (simp add: fetchLoop_past_end)

lemma fetchLoop_trace:
  "n \<le> maxAttempts config \<Longrightarrow>
   \<exists>m. n \<le> m \<and> m \<le> maxAttempts config \<and>
       fst (fetchLoop config input net random n lastError trace) =
         trace @ concat (map (\<lambda>i. [Fetch i, backoffOf config random i]) [n..<m]) @ [Fetch m]"
proof (induction config input net random n lastError trace rule: fetchLoop.induct)
  case (1 config input net random n lastError trace)
  show ?case
  proof (cases "attemptOnce input n (net n)")
    case (Return v)
    then show ?thesis using "1.prems" by (intro exI [of _ n]) (simp add: fetchLoop_return)
  next
    case (Throw e)
    then show ?thesis using "1.prems" by (intro exI [of _ n]) (simp add: fetchLoop_throw)
  next
    case (Retry e)
    show ?thesis
    proof (cases "n < maxAttempts config")
      case True
      then have "n + 1 \<le> maxAttempts config" by simp
      from "1.IH"(1) [OF "1.prems" Retry True refl refl this]
      obtain m where m: "n + 1 \<le> m" "m \<le> maxAttempts config"
        "fst (fetchLoop config input net random (n + 1) (Some e)
               (trace @ [Fetch n, Sleep (backoffDelay config n)
                  (addJitter (backoffDelay config n) (jitterPercent config) (random n))])) =
         (trace @ [Fetch n, Sleep (backoffDelay config n)
                  (addJitter (backoffDelay config n) (jitterPercent config) (random n))]) @
         concat (map (\<lambda>i. [Fetch i, backoffOf config random i]) [n + 1..<m]) @ [Fetch m]"
        by blast
      have upt: "[n..<m] = n # [n + 1..<m]" using m(1) by (simp add: upt_conv_Cons)
      show ?thesis
        using m True Retry
        by (intro exI [of _ m]) (simp add: fetchLoop_retry upt backoffOf_def)
    next
      case False
      with "1.prems" have "n = maxAttempts config" by simp
      then show ?thesis using Retry
        by (intro exI [of _ n]) (simp add: fetchLoop_last_retry)
    qed
  qed
qed

lemma fetchLoop_fetches_first:
  "n \<le> maxAttempts config \<Longrightarrow>
   \<exists>rest. fst (fetchLoop config input net random n lastError trace) = trace @ Fetch n # rest"
proof -
  assume "n \<le> maxAttempts config"
  from fetchLoop_trace [OF this, of input net random lastError trace]
  obtain m where m: "n \<le> m"
    "fst (fetchLoop config input net random n lastError trace) =
         trace @ concat (map (\<lambda>i. [Fetch i, backoffOf config random i]) [n..<m]) @ [Fetch m]"
    by blast
  show ?thesis
  proof (cases "n = m")
    case True
    then show ?thesis using m(2) by simp
  next
    case False
    then have "[n..<m] = n # [n + 1..<m]" using m(1) by (simp add: upt_conv_Cons)
    then show ?thesis using m(2) by simp
  qed
qed

subsection \<open>Classification of HTTP statuses\<close>

lemma attempt_429:
  "http_status response = 429 \<Longrightarrow>
   attemptOnce input n (Inr response) =
     Throw \<lparr>message = (case (case retryAfterHeader response of None \<Rightarrow> None
                                | Some h \<Rightarrow> if h \<noteq> [] then parseInt10 h else None) of
                         None \<Rightarrow> RateLimitShortly
                       | Some k \<Rightarrow> if k \<noteq> 0 then RateLimitFor k else RateLimitShortly),
            code = RATE_LIMITED, url = input, attempt = n, err_status = Some 429,
            retryAfterSec = (case retryAfterHeader response of None \<Rightarrow> None
                             | Some h \<Rightarrow> if h \<noteq> [] then parseInt10 h else None)\<rparr>"
  by (simp add: attemptOnce_def response_ok_def catchBlock_def isRetryableError_def Let_def)

lemma attempt_5xx:
  "500 \<le> http_status response \<Longrightarrow> http_status response < 600 \<Longrightarrow>
   attemptOnce input n (Inr response) =
     Retry \<lparr>message = HttpFailure (http_status response) (statusText response),
            code = HTTP_ERROR, url = input, attempt = n,
            err_status = Some (http_status response), retryAfterSec = None\<rparr>"
  by (simp add: attemptOnce_def response_ok_def isRetryableError_def Let_def)

lemma attempt_other:
  "\<not> response_ok response \<Longrightarrow> http_status response \<noteq> 429 \<Longrightarrow>
   \<not> (500 \<le> http_status response \<and> http_status response < 600) \<Longrightarrow>
   attemptOnce input n (Inr response) =
     Throw \<lparr>message = HttpFailure (http_status response) (statusText response),
            code = HTTP_ERROR, url = input, attempt = n,
            err_status = Some (http_status response), retryAfterSec = None\<rparr>"
  by (simp add: attemptOnce_def catchBlock_def isRetryableError_def Let_def)

subsection \<open>Jitter\<close>




section \<open>Claims about the request transport\<close>

text \<open>
  C3, as the claim states it, fails for status 429: with the default configuration
  (three attempts) a 429 on the first attempt ends the call at once, although the second
  attempt would have succeeded. The error carries the parsed \<open>Retry-After\<close> value.
\<close>

theorem rate_limit_not_retried_counterexample:
  "maxAttempts DEFAULT_CONFIG = 3 \<and>
   fetchJsonWithRetry DEFAULT_CONFIG ''u'' rateLimitedThenFine noJitter =
     ([Fetch 1],
      Inl \<lparr>message = RateLimitFor 7, code = RATE_LIMITED, url = ''u'', attempt = 1,
           err_status = Some 429, retryAfterSec = Some 7\<rparr>)"
  by (simp add: fetchJsonWithRetry_def fetchLoop.simps DEFAULT_CONFIG_def rateLimitedThenFine_def
      attemptOnce_def response_ok_def catchBlock_def isRetryableError_def parseInt10_def
      isSpace_def isDigit_def digitsValue_def Let_def)

text \<open>
  C3, amended. At any attempt of the loop that receives a response: a 5xx status is
  recorded and retried, so that with attempts remaining the back-off and the next
  \<open>fetch\<close> follow, and on the last attempt the call ends with the exhaustion error; a
  429 is thrown at once as a \<open>RATE_LIMITED\<close> error whose \<open>retryAfterSec\<close> is the
  \<open>Retry-After\<close> header read by \<open>parseInt\<close> (absent when the header is missing, empty or
  not a number); any other status outside 200..299 is thrown at once as an
  \<open>HTTP_ERROR\<close>. In the two throwing cases the trace ends with this attempt. The
  exhaustion error never carries a \<open>retryAfterSec\<close>.
\<close>

theorem retry_classification:
  assumes "n \<le> maxAttempts config" and "net n = Inr response"
  shows "(500 \<le> http_status response \<and> http_status response < 600 \<longrightarrow>
            (n < maxAttempts config \<longrightarrow>
               (\<exists>rest. fst (fetchLoop config input net random n lastError trace) =
                    trace @ [Fetch n, backoffOf config random n, Fetch (n + 1)] @ rest)) \<and>
            (n = maxAttempts config \<longrightarrow>
               fetchLoop config input net random n lastError trace =
                 (trace @ [Fetch n],
                  Inl (exhausted config input
                    (Some \<lparr>message = HttpFailure (http_status response) (statusText response),
                           code = HTTP_ERROR, url = input, attempt = n,
                           err_status = Some (http_status response), retryAfterSec = None\<rparr>))))) \<and>
         (http_status response = 429 \<longrightarrow>
            (\<exists>m. fetchLoop config input net random n lastError trace =
               (trace @ [Fetch n],
                Inl \<lparr>message = m, code = RATE_LIMITED, url = input, attempt = n,
                     err_status = Some 429,
                     retryAfterSec = (case retryAfterHeader response of
                                        None \<Rightarrow> None
                                      | Some h \<Rightarrow> if h \<noteq> [] then parseInt10 h else None)\<rparr>))) \<and>
         (\<not> response_ok response \<and> http_status response \<noteq> 429 \<and>
          \<not> (500 \<le> http_status response \<and> http_status response < 600) \<longrightarrow>
            fetchLoop config input net random n lastError trace =
              (trace @ [Fetch n],
               Inl \<lparr>message = HttpFailure (http_status response) (statusText response),
                    code = HTTP_ERROR, url = input, attempt = n,
                    err_status = Some (http_status response), retryAfterSec = None\<rparr>)) \<and>
         retryAfterSec (exhausted config input lastError) = None"
proof -
  let ?e = "\<lparr>message = HttpFailure (http_status response) (statusText response),
             code = HTTP_ERROR, url = input, attempt = n,
             err_status = Some (http_status response), retryAfterSec = None\<rparr>"
  have a: "\<exists>rest. fst (fetchLoop config input net random n lastError trace) =
                    trace @ [Fetch n, backoffOf config random n, Fetch (n + 1)] @ rest"
    if s: "500 \<le> http_status response" "http_status response < 600" and n: "n < maxAttempts config"
  proof -
    have r: "attemptOnce input n (net n) = Retry ?e"
      using s assms(2) by (simp add: attempt_5xx)
    have "n + 1 \<le> maxAttempts config" using n by simp
    from fetchLoop_fetches_first [OF this, of input net random "Some ?e"
        "trace @ [Fetch n, backoffOf config random n]"]
    show ?thesis by (simp add: fetchLoop_retry [where net = net, OF n r])
  qed
  have b: "fetchLoop config input net random n lastError trace =
             (trace @ [Fetch n], Inl (exhausted config input (Some ?e)))"
    if s: "500 \<le> http_status response" "http_status response < 600" and n: "n = maxAttempts config"
  proof -
    have r: "attemptOnce input n (net n) = Retry ?e"
      using s assms(2) by (simp add: attempt_5xx)
    show ?thesis by (rule fetchLoop_last_retry [where net = net, OF n r])
  qed
  have c: "\<exists>m. fetchLoop config input net random n lastError trace =
               (trace @ [Fetch n],
                Inl \<lparr>message = m, code = RATE_LIMITED, url = input, attempt = n,
                     err_status = Some 429,
                     retryAfterSec = (case retryAfterHeader response of
                                        None \<Rightarrow> None
                                      | Some h \<Rightarrow> if h \<noteq> [] then parseInt10 h else None)\<rparr>)"
    if s: "http_status response = 429"
    using fetchLoop_throw [OF assms(1), of input net _ random lastError trace]
      attempt_429 [OF s, of input n] assms(2)
    by simp
  have d: "fetchLoop config input net random n lastError trace = (trace @ [Fetch n], Inl ?e)"
    if s: "\<not> response_ok response" "http_status response \<noteq> 429"
      "\<not> (500 \<le> http_status response \<and> http_status response < 600)"
    using fetchLoop_throw [OF assms(1), of input net _ random lastError trace]
      attempt_other [OF s, of input n] assms(2)
    by simp
  have e: "retryAfterSec (exhausted config input lastError) = None"
    by (simp add: exhausted_def)
  show ?thesis using a b c d e by blast
qed

theorem retry_classification_witness:
  "fetchJsonWithRetry DEFAULT_CONFIG ''u'' notFound noJitter =
     ([Fetch 1],
      Inl \<lparr>message = HttpFailure 404 ''Not Found'', code = HTTP_ERROR, url = ''u'', attempt = 1,
           err_status = Some 404, retryAfterSec = None\<rparr>) \<and>
   (\<exists>rest. fst (fetchJsonWithRetry DEFAULT_CONFIG ''u'' alwaysFailing noJitter) =
      [Fetch 1, Sleep 300 300, Fetch 2] @ rest)"
proof -
  have 1: "(1::nat) \<le> maxAttempts DEFAULT_CONFIG" "(1::nat) < maxAttempts DEFAULT_CONFIG"
    by (simp_all add: DEFAULT_CONFIG_def)
  have b: "backoffOf DEFAULT_CONFIG noJitter (Suc 0) = Sleep 300 300"
    by (simp add: backoffOf_def backoffDelay_def addJitter_def Math_round_def noJitter_def
        DEFAULT_CONFIG_def)
  from retry_classification [OF 1(1), of notFound _ "''u''" noJitter None "[]"]
  have "fetchJsonWithRetry DEFAULT_CONFIG ''u'' notFound noJitter =
     ([Fetch 1],
      Inl \<lparr>message = HttpFailure 404 ''Not Found'', code = HTTP_ERROR, url = ''u'', attempt = 1,
           err_status = Some 404, retryAfterSec = None\<rparr>)"
    by (simp add: notFound_def response_ok_def fetchJsonWithRetry_def)
  moreover from retry_classification [OF 1(1), of alwaysFailing _ "''u''" noJitter None "[]"]
  have "\<exists>rest. fst (fetchJsonWithRetry DEFAULT_CONFIG ''u'' alwaysFailing noJitter) =
      [Fetch 1, Sleep 300 300, Fetch 2] @ rest"
    using 1(2) by (simp add: alwaysFailing_def fetchJsonWithRetry_def b numeral_2_eq_2)
  ultimately show ?thesis by simp
qed




section \<open>Properties of the schedule computation\<close>

lemma mod_hour_of_day: "(x mod 86400000) mod 3600000 = (x :: int) mod 3600000"
  by (rule mod_mod_cancel) simp

lemma mod_minute_of_hour: "(x mod 3600000) mod 60000 = (x :: int) mod 60000"
  by (rule mod_mod_cancel) simp

lemma setHours1_shift: "setHours1 tz t (getHours tz t + k) = t + k * 3600000"
proof -
  let ?L = "t + tz"
  have "?L mod 86400000 = 3600000 * ((?L mod 86400000) div 3600000) + (?L mod 86400000) mod 3600000"
    by simp
  then have "?L mod 86400000 = 3600000 * ((?L mod 86400000) div 3600000) + ?L mod 3600000"
    by (simp only: mod_hour_of_day)
  then show ?thesis by (simp add: setHours1_def getHours_def algebra_simps)
qed

lemma div_thousand: "(x :: int) div 1000 < 30 \<longleftrightarrow> x < 30000"
proof -
  define d where "d = x div 1000"
  define r where "r = x mod 1000"
  have "x = 1000 * d + r" "0 \<le> r" "r < 1000" by (simp_all add: d_def r_def)
  then show ?thesis unfolding d_def [symmetric] by linarith
qed

lemma start_window:
  "getMinutes tz now = 0 \<and> getSeconds tz now < 30 \<longleftrightarrow> (now + tz) mod 3600000 < 30000"
proof -
  let ?m = "(now + tz) mod 3600000"
  have m: "0 \<le> ?m" by simp
  have s: "(now + tz) mod 60000 = ?m mod 60000" by (simp only: mod_minute_of_hour)
  show ?thesis
  proof (cases "?m < 60000")
    case True
    then have "?m mod 60000 = ?m" using m by simp
    moreover have "?m div 60000 = 0" using True m by simp
    moreover have "?m div 1000 < 30 \<longleftrightarrow> ?m < 30000" by (rule div_thousand)
    ultimately show ?thesis unfolding getMinutes_def getSeconds_def s by simp
  next
    case False
    then have "?m div 60000 \<noteq> 0" by (simp add: div_eq_0_iff)
    then show ?thesis using False by (simp add: getMinutes_def)
  qed
qed


lemma hourly_other_form:
  assumes "sched \<noteq> ''end''"
  shows "computeNextExecution tz Hourly sched dow now =
     Inr (if sched = ''start'' \<and> (now + tz) mod 3600000 < 30000
          then now - (now + tz) mod 3600000
          else now - (now + tz) mod 3600000 + 3600000)"
proof -
  have a: "setHours1 tz t (getHours tz t - 1) = t - 3600000" for t
    using setHours1_shift [of tz t "- 1"] by simp
  show ?thesis
    using assms
    by (simp add: computeNextExecution_def Let_def setHours1_shift a start_window setMinutes_def)
qed

lemma daily_form:
  assumes "parseSchedule sched = (Some h, Some m)"
  shows "computeNextExecution tz Daily sched dow now =
     Inr (nextSlot 86400000 (h * 3600000 + m * 60000) tz now)"
  using assms
  by (simp add: computeNextExecution_def nextSlot_def Let_def setHours4_def plusDays_def algebra_simps)














section \<open>Claims about the DCA schedule\<close>




section \<open>Properties of the trade dispatcher\<close>

lemma executeAlertTrade_returns: "\<exists>r w'. executeAlertTrade w alert = Inr (r, w')"
proof (cases "trade_enabled alert = Some True")
  case False
  then show ?thesis by (simp add: executeAlertTrade_def)
next
  case True
  show ?thesis
  proof (cases "getStoredKeys (keysEntry w)")
    case None
    then show ?thesis using True by (simp add: executeAlertTrade_def)
  next
    case (Some keys)
    show ?thesis
      unfolding executeAlertTrade_def using True Some
      by (simp split: sum.split prod.split)
  qed
qed

lemma executeDCATrade_returns: "\<exists>r w'. executeDCATrade w strategy = Inr (r, w')"
proof (cases "getStoredKeys (keysEntry w)")
  case None
  then show ?thesis by (simp add: executeDCATrade_def)
next
  case (Some keys)
  show ?thesis
    unfolding executeDCATrade_def using Some
    by (simp split: sum.split prod.split)
qed

section \<open>Claims about the trade dispatcher\<close>

text \<open>
  C9. With no usable credentials in local storage, \<open>executeAlertTrade\<close> on a
  trade-enabled alert and \<open>executeDCATrade\<close> return the failure
  \<open>No API keys configured\<close> and change nothing. Neither function ever throws: whatever
  the storage, the time sync, the order call and the history write do, each returns a
  result, and a failing time sync or order call is returned as a failure carrying the
  message of the error.
\<close>

theorem dispatch_never_throws:
  "(getStoredKeys (keysEntry w) = None \<and> trade_enabled alert = Some True \<longrightarrow>
      executeAlertTrade w alert =
        Inr (Some \<lparr>success = False, order = None, error = Some ''No API keys configured''\<rparr>, w)) \<and>
   (getStoredKeys (keysEntry w) = None \<longrightarrow>
      executeDCATrade w strategy =
        Inr (\<lparr>success = False, order = None, error = Some ''No API keys configured''\<rparr>, w)) \<and>
   (\<exists>r w'. executeAlertTrade w alert = Inr (r, w')) \<and>
   (\<exists>r w'. executeDCATrade w strategy = Inr (r, w')) \<and>
   (getStoredKeys (keysEntry w) \<noteq> None \<and> trade_enabled alert = Some True \<and> syncTime w = Inl err \<longrightarrow>
      executeAlertTrade w alert =
        Inr (Some \<lparr>success = False, order = None, error = Some err\<rparr>, w)) \<and>
   (getStoredKeys (keysEntry w) \<noteq> None \<and> syncTime w = Inl err \<longrightarrow>
      executeDCATrade w strategy = Inr (\<lparr>success = False, order = None, error = Some err\<rparr>, w)) \<and>
   (getStoredKeys (keysEntry w) \<noteq> None \<and> trade_enabled alert = Some True \<and> syncTime w = Inr () \<and>
    (\<forall>p. placeLimitOrder w p = Inl err) \<longrightarrow>
      executeAlertTrade w alert =
        Inr (Some \<lparr>success = False, order = None, error = Some err\<rparr>, w)) \<and>
   (getStoredKeys (keysEntry w) \<noteq> None \<and> syncTime w = Inr () \<and>
    (\<forall>p. placeMarketOrder w p = Inl err) \<longrightarrow>
      executeDCATrade w strategy = Inr (\<lparr>success = False, order = None, error = Some err\<rparr>, w))"
proof -
  have a: "\<exists>r w'. executeAlertTrade w alert = Inr (r, w')"
    by (rule executeAlertTrade_returns)
  have b: "\<exists>r w'. executeDCATrade w strategy = Inr (r, w')"
    by (rule executeDCATrade_returns)
  have c: "executeAlertTrade w alert =
        Inr (Some \<lparr>success = False, order = None, error = Some err\<rparr>, w)"
    if k: "getStoredKeys (keysEntry w) \<noteq> None" and t: "trade_enabled alert = Some True"
      and s: "syncTime w = Inl err \<or> syncTime w = Inr () \<and> (\<forall>p. placeLimitOrder w p = Inl err)"
  proof -
    from k obtain keys where keys: "getStoredKeys (keysEntry w) = Some keys" by blast
    from s show ?thesis
    proof
      assume "syncTime w = Inl err"
      then show ?thesis using keys t by (simp add: executeAlertTrade_def)
    next
      assume "syncTime w = Inr () \<and> (\<forall>p. placeLimitOrder w p = Inl err)"
      then show ?thesis using keys t by (simp add: executeAlertTrade_def Let_def)
    qed
  qed
  have d: "executeDCATrade w strategy = Inr (\<lparr>success = False, order = None, error = Some err\<rparr>, w)"
    if k: "getStoredKeys (keysEntry w) \<noteq> None"
      and s: "syncTime w = Inl err \<or> syncTime w = Inr () \<and> (\<forall>p. placeMarketOrder w p = Inl err)"
  proof -
    from k obtain keys where keys: "getStoredKeys (keysEntry w) = Some keys" by blast
    from s show ?thesis
    proof
      assume "syncTime w = Inl err"
      then show ?thesis using keys by (simp add: executeDCATrade_def)
    next
      assume "syncTime w = Inr () \<and> (\<forall>p. placeMarketOrder w p = Inl err)"
      then show ?thesis using keys by (simp add: executeDCATrade_def Let_def)
    qed
  qed
  have e: "executeAlertTrade w alert =
        Inr (Some \<lparr>success = False, order = None, error = Some ''No API keys configured''\<rparr>, w)"
    if "getStoredKeys (keysEntry w) = None" "trade_enabled alert = Some True"
    using that by (simp add: executeAlertTrade_def)
  have f: "executeDCATrade w strategy =
        Inr (\<lparr>success = False, order = None, error = Some ''No API keys configured''\<rparr>, w)"
    if "getStoredKeys (keysEntry w) = None"
    using that by (simp add: executeDCATrade_def)
  show ?thesis using a b c d e f by blast
qed

theorem dispatch_never_throws_witness:
  "executeAlertTrade noKeysWorld (blankAlert\<lparr>trade_enabled := Some True\<rparr>) =
     Inr (Some \<lparr>success = False, order = None, error = Some ''No API keys configured''\<rparr>, noKeysWorld) \<and>
   executeAlertTrade offlineWorld (blankAlert\<lparr>trade_enabled := Some True\<rparr>) =
     Inr (Some \<lparr>success = False, order = None, error = Some ''Failed to fetch''\<rparr>, offlineWorld)"
proof -
  have 1: "getStoredKeys (keysEntry noKeysWorld) = None"
    "trade_enabled (blankAlert\<lparr>trade_enabled := Some True\<rparr>) = Some True"
    by (simp_all add: noKeysWorld_def getStoredKeys_def)
  have 2: "getStoredKeys (keysEntry offlineWorld) \<noteq> None"
    "syncTime offlineWorld = Inl ''Failed to fetch''"
    by (simp_all add: offlineWorld_def noKeysWorld_def getStoredKeys_def)
  show ?thesis
    using dispatch_never_throws [of noKeysWorld "blankAlert\<lparr>trade_enabled := Some True\<rparr>"] 1
      dispatch_never_throws [of offlineWorld "blankAlert\<lparr>trade_enabled := Some True\<rparr>" _ "''Failed to fetch''"] 1(2) 2
    by blast
qed

section \<open>Properties of the DCA scheduler\<close>

lemma executeStrategy_done:
  "(dca_id strategy, nextExecuteAt strategy) \<in> executedKeys s \<Longrightarrow>
   executeStrategy tz w finished strategy s = (s, None)"
  by (simp add: executeStrategy_def)

lemma executeStrategy_fresh:
  assumes k: "(dca_id strategy, nextExecuteAt strategy) \<notin> executedKeys s"
    and t: "executeDCATrade w strategy = Inr (result, w')"
  shows "executeStrategy tz w finished strategy s =
     (case computeNextExecution tz (frequency strategy) (scheduledTime strategy)
             (dayOfWeek strategy) finished of
        Inl err \<Rightarrow>
          (s\<lparr>executedKeys := insert (dca_id strategy, nextExecuteAt strategy) (executedKeys s),
             attempts := attempts s @
               [TradeAttempt (dca_id strategy) (nextExecuteAt strategy) (success result)]\<rparr>,
           Some err)
      | Inr nxt \<Rightarrow>
          (s\<lparr>executedKeys := insert (dca_id strategy, nextExecuteAt strategy) (executedKeys s),
             attempts := attempts s @
               [TradeAttempt (dca_id strategy) (nextExecuteAt strategy) (success result)],
             strategies :=
               updateDCAStrategy (dca_id strategy)
                 (\<lambda>x. x\<lparr>totalSpent := totalSpent strategy + quoteAmount strategy,
                         executionCount := executionCount strategy + 1,
                         lastExecutedAt := Some finished,
                         nextExecuteAt := nxt,
                         enabled := (if totalSpent strategy + quoteAmount strategy \<ge> totalBudget strategy
                                     then False else enabled x)\<rparr>)
                 (strategies s)\<rparr>,
           None))"
  using k t by (simp add: executeStrategy_def Let_def split: sum.split)



lemma executeStrategy_flags:
  "executing (fst (executeStrategy tz w finished strategy s)) = executing s"
proof (cases "(dca_id strategy, nextExecuteAt strategy) \<in> executedKeys s")
  case True
  then show ?thesis by (simp add: executeStrategy_done)
next
  case False
  obtain result w' where t: "executeDCATrade w strategy = Inr (result, w')"
    using executeDCATrade_returns by blast
  show ?thesis by (simp add: executeStrategy_fresh [OF False t] split: sum.split)
qed







section \<open>Claims about the DCA scheduler\<close>




lemma example_trade_ok:
  "executeDCATrade onlineWorld st =
     Inr (\<lparr>success = True, order = Some sampleOrder, error = None\<rparr>,
          onlineWorld\<lparr>orderHistory :=
            [\<lparr>stored_id = ''o1'', stored_orderId = 1, stored_symbol = ''BTCUSDT'', stored_side = BUY,
              stored_price = ''0'', quantity = ''1'', stored_status = ''FILLED'',
              stored_accountType = accountType st, alertId = Some (''dca-'' @ dca_id st),
              stored_createdAt = 0\<rparr>]\<rparr>)"
  by (simp add: executeDCATrade_def getStoredKeys_def onlineWorld_def noKeysWorld_def marketOk_def
      addOrderToHistory_def MAX_ORDERS_def sampleOrder_def Let_def)




text \<open>
  Two consequences of the schedule computation that the amended C4 leaves out. A
  negative hour in a daily schedule can give a time before \<open>now\<close>. And an hourly
  \<open>start\<close> strategy whose trade is over within the first 30 seconds of the hour is
  given its old due time again, so the key guard keeps it from running at the next
  hour: the second check below executes nothing.
\<close>

lemma negative_hour_is_before_now:
  "computeNextExecution 0 Daily ''-1:00'' None 84600000 = Inr 82800000"
proof -
  have "parseSchedule ''-1:00'' = (Some (- 1), Some 0)"
    by (simp add: parseSchedule_def Number_js_def isSpace_def isDigit_def digitsValue_def)
  from daily_form [OF this, of 0 None 84600000] show ?thesis by (simp add: nextSlot_def)
qed

lemma hourly_start_strategy_stalls:
  "map nextExecuteAt (strategies (runChecks 0 hourlyChecks (initScheduler [hourlyExample]))) = [3600000] \<and>
   attempts (runChecks 0 hourlyChecks (initScheduler [hourlyExample])) =
     [TradeAttempt ''s1'' 3600000 True]"
  by (simp add: runChecks_def runCheck_def check_def executeStrategy_def hourlyChecks_def
      initScheduler_def hourlyExample_def budgetExample_def unchanged_def tradeAt_def
      example_trade_ok hourly_other_form tenPastTheHour_def updateDCAStrategy_def Let_def)

end
